theory Spec2Isabelle
  imports Complex_Main
begin

section \<open>Conventions of the embedding\<close>

text \<open>
  The Python sources \<^verbatim>\<open>app/core/simulation_engine.py\<close> and
  \<^verbatim>\<open>app/core/sensor_simulator.py\<close> are embedded function by function.
  A Python \<^verbatim>\<open>float\<close> is read as a real number: the arithmetic of the model is
  exact, so rounding error, infinities and NaN of IEEE-754 doubles are outside the
  model. Every exception the code can raise on real-valued inputs is a value of
  \<open>py_error\<close>, and a function that can raise returns \<open>py_error + 'a\<close> with
  \<open>Inl\<close> for the exception. Mutation of \<^verbatim>\<open>self\<close> is explicit state passing.
\<close>

datatype py_error = ZeroDivisionError | ValueError | TypeError | AttributeError

text \<open>Float division \<^verbatim>\<open>a / b\<close>: raises ZeroDivisionError when the divisor is zero.\<close>

definition py_div :: "real \<Rightarrow> real \<Rightarrow> py_error + real" where
  "py_div a b = (if b = 0 then Inl ZeroDivisionError else Inr (a / b))"

text \<open>\<^verbatim>\<open>math.log(x)\<close>: raises ValueError (math domain error) unless \<open>x\<close> is positive.\<close>

definition math_log :: "real \<Rightarrow> py_error + real" where
  "math_log x = (if x \<le> 0 then Inl ValueError else Inr (ln x))"

text \<open>
  \<^verbatim>\<open>round(x, n)\<close>: the nearest multiple of \<open>10^-n\<close>, a tie going to the even
  multiple.
\<close>

definition py_round :: "real \<Rightarrow> nat \<Rightarrow> real" where
  "py_round x n =
     (let y = x * 10 ^ n;
          f = \<lfloor>y\<rfloor>;
          d = y - of_int f
      in (if d < 1 / 2 then of_int f
          else if 1 / 2 < d then of_int (f + 1)
          else if even f then of_int f
          else of_int (f + 1)) / 10 ^ n)"

text \<open>\<^verbatim>\<open>np.clip(x, lo, hi)\<close> is \<^verbatim>\<open>minimum(maximum(x, lo), hi)\<close>.\<close>

definition np_clip :: "real \<Rightarrow> real \<Rightarrow> real \<Rightarrow> real" where
  "np_clip x lo hi = min (max x lo) hi"

section \<open>The simulation engine\<close>

subsection \<open>State\<close>

text \<open>
  The two dataclasses. \<open>inst_attrs\<close> holds the attributes of an
  \<^verbatim>\<open>EnvironmentalState\<close> instance other than its six fields: a dataclass
  instance has a \<^verbatim>\<open>__dict__\<close>, \<^verbatim>\<open>setattr\<close> can add entries to it, and
  \<^verbatim>\<open>EnvironmentalState(**self.env.__dict__)\<close> reads all of them. The constructor
  leaves it empty.
\<close>

record EnvironmentalState =
  temperature :: real
  nutrients :: real
  light :: real
  salinity :: real
  ph :: real
  dissolved_oxygen :: real
  inst_attrs :: "(string \<times> real) list"

record PopulationState =
  phytoplankton :: real
  zooplankton :: real
  bacteria :: real
  cyanobacteria :: real
  diatoms :: real
  dinoflagellates :: real

text \<open>The dictionary appended to \<^verbatim>\<open>self.history\<close> by every step.\<close>

record HistoryRecord =
  h_week :: int
  h_phytoplankton :: real
  h_zooplankton :: real
  h_bacteria :: real
  h_nutrients :: real
  h_temperature :: real
  h_ph :: real
  h_carbon_sequestration :: real
  h_biodiversity :: real
  h_ecosystem_health :: real

record OceanSimulationEngine =
  env :: EnvironmentalState
  pop :: PopulationState
  week :: int
  history :: "HistoryRecord list"
  total_carbon_sequestered :: real

text \<open>\<^verbatim>\<open>OceanSimulationEngine.__init__\<close>.\<close>

definition init_engine :: "EnvironmentalState \<Rightarrow> PopulationState \<Rightarrow> OceanSimulationEngine" where
  "init_engine e p =
     \<lparr>env = e, pop = p, week = 0, history = [], total_carbon_sequestered = 0\<rparr>"

text \<open>\<^verbatim>\<open>create_simulation_engine\<close>; the defaults are 20.0, 50.0, 75.0, 35.0.\<close>

definition create_simulation_engine ::
  "real \<Rightarrow> real \<Rightarrow> real \<Rightarrow> real \<Rightarrow> OceanSimulationEngine" where
  "create_simulation_engine t n l s =
     init_engine
       \<lparr>temperature = t, nutrients = n, light = l, salinity = s, ph = 8.1,
        dissolved_oxygen = 8.0, inst_attrs = []\<rparr>
       \<lparr>phytoplankton = 1000, zooplankton = 500, bacteria = 2000,
        cyanobacteria = 0, diatoms = 0, dinoflagellates = 0\<rparr>"

definition default_engine :: OceanSimulationEngine where
  "default_engine = create_simulation_engine 20.0 50.0 75.0 35.0"

subsection \<open>Growth factors\<close>

record GrowthFactors =
  f_temperature :: real
  f_nutrients :: real
  f_light :: real
  f_ph :: real
  f_oxygen :: real

text \<open>
  \<^verbatim>\<open>calculate_growth_factors\<close>. The two Monod quotients divide by
  \<open>nutrients + 20\<close> and \<open>light + 30\<close>, in that order.
\<close>

definition calculate_growth_factors :: "EnvironmentalState \<Rightarrow> py_error + GrowthFactors" where
  "calculate_growth_factors ev =
     (let temp_factor = exp (- ((temperature ev - 20) ^ 2) / 100) in
      case py_div (nutrients ev) (nutrients ev + 20) of
        Inl err \<Rightarrow> Inl err
      | Inr nutrient_factor \<Rightarrow>
      (case py_div (light ev) (light ev + 30) of
        Inl err \<Rightarrow> Inl err
      | Inr light_factor \<Rightarrow>
        let ph_factor = exp (- ((ph ev - 8.1) ^ 2) / 0.5);
            oxygen_factor = min 1.0 (dissolved_oxygen ev / 8.0)
        in Inr \<lparr>f_temperature = temp_factor, f_nutrients = nutrient_factor,
                f_light = light_factor, f_ph = ph_factor, f_oxygen = oxygen_factor\<rparr>))"

subsection \<open>Metrics\<close>

text \<open>\<^verbatim>\<open>calculate_carbon_sequestration\<close>.\<close>

definition calculate_carbon_sequestration :: "OceanSimulationEngine \<Rightarrow> real" where
  "calculate_carbon_sequestration e =
     (let carbon_fixed = phytoplankton (pop e) * 0.001;
          export_efficiency = 0.15;
          remineralization_rate = 0.60;
          net_carbon_sequestered = carbon_fixed * export_efficiency * (1 - remineralization_rate);
          co2_sequestered = net_carbon_sequestered * (44 / 12)
      in co2_sequestered)"

text \<open>\<^verbatim>\<open>sum(p * math.log(p) for p in proportions)\<close>, stopping at the first exception.\<close>

fun sum_p_log_p :: "real list \<Rightarrow> py_error + real" where
  "sum_p_log_p [] = Inr 0"
| "sum_p_log_p (p # ps) =
     (case math_log p of
        Inl err \<Rightarrow> Inl err
      | Inr l \<Rightarrow> (case sum_p_log_p ps of Inl err \<Rightarrow> Inl err | Inr s \<Rightarrow> Inr (p * l + s)))"

text \<open>\<^verbatim>\<open>calculate_biodiversity_index\<close>.\<close>

definition calculate_biodiversity_index :: "OceanSimulationEngine \<Rightarrow> py_error + real" where
  "calculate_biodiversity_index e =
     (let populations = [phytoplankton (pop e), zooplankton (pop e), bacteria (pop e)];
          total = sum_list populations
      in if total = 0 then Inr 0.0
         else
           let proportions = map (\<lambda>p. p / total) (filter (\<lambda>p. p > 0) populations) in
           case sum_p_log_p proportions of
             Inl err \<Rightarrow> Inl err
           | Inr s \<Rightarrow>
               let shannon_index = - s;
                   normalized = shannon_index / ln 3
               in Inr (py_round normalized 3))"

text \<open>\<^verbatim>\<open>calculate_ecosystem_health\<close>.\<close>

definition calculate_ecosystem_health :: "OceanSimulationEngine \<Rightarrow> py_error + real" where
  "calculate_ecosystem_health e =
     (let ideal_phyto = 1500;
          ideal_zoo = 700;
          ideal_bacteria = 2200;
          pop_health0 =
            (1 - \<bar>phytoplankton (pop e) - ideal_phyto\<bar> / ideal_phyto) * 0.3 +
            (1 - \<bar>zooplankton (pop e) - ideal_zoo\<bar> / ideal_zoo) * 0.2 +
            (1 - \<bar>bacteria (pop e) - ideal_bacteria\<bar> / ideal_bacteria) * 0.2;
          pop_health = max 0 pop_health0;
          temp_health = 1 - \<bar>temperature (env e) - 20\<bar> / 20;
          nutrient_health = nutrients (env e) / 100;
          ph_health = 1 - \<bar>ph (env e) - 8.1\<bar> / 1.5;
          oxygen_health = min 1.0 (dissolved_oxygen (env e) / 8.0);
          env_health = (temp_health + nutrient_health + ph_health + oxygen_health) / 4 * 0.3
      in case calculate_biodiversity_index e of
           Inl err \<Rightarrow> Inl err
         | Inr b \<Rightarrow>
             let biodiversity_health = b * 0.2;
                 total_health = (pop_health + env_health + biodiversity_health) * 100
             in Inr (py_round (np_clip total_health 0 100) 1))"

subsection \<open>One step\<close>

text \<open>
  \<^verbatim>\<open>_single_step\<close> (an Isabelle name cannot start with an underscore). The
  assignments are kept in the order of the source: the populations, then nutrients, ph
  and oxygen, then the carbon total, the week and the history record, whose two last
  entries call the metrics on the updated state.
\<close>

definition single_step :: "OceanSimulationEngine \<Rightarrow> py_error + OceanSimulationEngine" where
  "single_step e =
     (case calculate_growth_factors (env e) of
        Inl err \<Rightarrow> Inl err
      | Inr factors \<Rightarrow>
        let phyto_growth =
              f_nutrients factors * 0.4 + f_light factors * 0.35 + f_temperature factors * 0.25;
            grazing_loss = zooplankton (pop e) * 0.00015;
            phyto_net_growth = phyto_growth * 0.15 - grazing_loss - 0.05;
            phyto' = max 100 (phytoplankton (pop e) * (1 + phyto_net_growth));
            zoo_food_factor = min 1.0 (phyto' / 2000);
            zoo_growth = zoo_food_factor * f_temperature factors * 0.12 - 0.08;
            zoo' = max 50 (zooplankton (pop e) * (1 + zoo_growth));
            organic_matter = phyto' * 0.0001 + zoo' * 0.0002;
            bacteria_growth =
              organic_matter * f_temperature factors * 0.15 + f_nutrients factors * 0.08 - 0.03;
            bact' = max 500 (bacteria (pop e) * (1 + bacteria_growth));
            nutrient_uptake = phyto' * 0.00012;
            nutrient_regeneration = bact' * 0.00008;
            nutrients' =
              np_clip (nutrients (env e) - nutrient_uptake + nutrient_regeneration + 0.5) 0 100;
            ph_change = (phyto_net_growth * 0.01) - (bacteria_growth * 0.005);
            ph' = np_clip (ph (env e) + ph_change) 7.5 8.5;
            oxygen_production = phyto' * 0.0001;
            oxygen_consumption = (zoo' + bact') * 0.00005;
            oxygen' =
              np_clip (dissolved_oxygen (env e) + oxygen_production - oxygen_consumption) 4.0 12.0;
            e1 = e\<lparr>pop := (pop e)\<lparr>phytoplankton := phyto', zooplankton := zoo', bacteria := bact'\<rparr>,
                   env := (env e)\<lparr>nutrients := nutrients', ph := ph', dissolved_oxygen := oxygen'\<rparr>\<rparr>;
            carbon_seq = calculate_carbon_sequestration e1;
            e2 = e1\<lparr>total_carbon_sequestered := total_carbon_sequestered e1 + carbon_seq,
                    week := week e1 + 1\<rparr>
        in (case calculate_biodiversity_index e2 of
             Inl err \<Rightarrow> Inl err
           | Inr b \<Rightarrow>
           (case calculate_ecosystem_health e2 of
             Inl err \<Rightarrow> Inl err
           | Inr h \<Rightarrow>
               Inr (e2\<lparr>history := history e2 @
                     [\<lparr>h_week = week e2,
                       h_phytoplankton = phytoplankton (pop e2),
                       h_zooplankton = zooplankton (pop e2),
                       h_bacteria = bacteria (pop e2),
                       h_nutrients = nutrients (env e2),
                       h_temperature = temperature (env e2),
                       h_ph = ph (env e2),
                       h_carbon_sequestration = carbon_seq,
                       h_biodiversity = b,
                       h_ecosystem_health = h\<rparr>]\<rparr>))))"

subsection \<open>Snapshots, stepping and prediction\<close>

record EnvironmentSnapshot =
  s_temperature :: real
  s_nutrients :: real
  s_light :: real
  s_salinity :: real
  s_ph :: real
  s_dissolved_oxygen :: real

record PopulationSnapshot =
  s_phytoplankton :: real
  s_zooplankton :: real
  s_bacteria :: real

record MetricsSnapshot =
  s_carbon_sequestration_rate :: real
  s_total_carbon_sequestered :: real
  s_biodiversity_index :: real
  s_ecosystem_health_score :: real

record StateSnapshot =
  s_week :: int
  s_environment :: EnvironmentSnapshot
  s_populations :: PopulationSnapshot
  s_metrics :: MetricsSnapshot

text \<open>\<^verbatim>\<open>get_current_state\<close>.\<close>

definition get_current_state :: "OceanSimulationEngine \<Rightarrow> py_error + StateSnapshot" where
  "get_current_state e =
     (case calculate_biodiversity_index e of
        Inl err \<Rightarrow> Inl err
      | Inr b \<Rightarrow>
      (case calculate_ecosystem_health e of
        Inl err \<Rightarrow> Inl err
      | Inr h \<Rightarrow>
          Inr \<lparr>s_week = week e,
               s_environment =
                 \<lparr>s_temperature = temperature (env e),
                  s_nutrients = nutrients (env e),
                  s_light = light (env e),
                  s_salinity = salinity (env e),
                  s_ph = ph (env e),
                  s_dissolved_oxygen = dissolved_oxygen (env e)\<rparr>,
               s_populations =
                 \<lparr>s_phytoplankton = py_round (phytoplankton (pop e)) 2,
                  s_zooplankton = py_round (zooplankton (pop e)) 2,
                  s_bacteria = py_round (bacteria (pop e)) 2\<rparr>,
               s_metrics =
                 \<lparr>s_carbon_sequestration_rate = py_round (calculate_carbon_sequestration e) 4,
                  s_total_carbon_sequestered = py_round (total_carbon_sequestered e) 2,
                  s_biodiversity_index = b,
                  s_ecosystem_health_score = h\<rparr>\<rparr>))"

text \<open>The loop \<^verbatim>\<open>for _ in range(weeks): self._single_step()\<close>.\<close>

fun step_loop :: "nat \<Rightarrow> OceanSimulationEngine \<Rightarrow> py_error + OceanSimulationEngine" where
  "step_loop 0 e = Inr e"
| "step_loop (Suc n) e =
     (case single_step e of Inl err \<Rightarrow> Inl err | Inr e' \<Rightarrow> step_loop n e')"

text \<open>
  \<^verbatim>\<open>step\<close>: \<^verbatim>\<open>range(weeks)\<close> is empty for \<open>weeks \<le> 0\<close>, which is \<open>nat weeks = 0\<close>.
  The result is the engine after the call and the snapshot returned.
\<close>

definition step ::
  "OceanSimulationEngine \<Rightarrow> int \<Rightarrow> py_error + (OceanSimulationEngine \<times> StateSnapshot)" where
  "step e weeks =
     (case step_loop (nat weeks) e of
        Inl err \<Rightarrow> Inl err
      | Inr e' \<Rightarrow>
          (case get_current_state e' of Inl err \<Rightarrow> Inl err | Inr s \<Rightarrow> Inr (e', s)))"

record ProjectionRecord =
  p_week :: int
  p_phytoplankton :: real
  p_zooplankton :: real
  p_bacteria :: real
  p_carbon_sequestration :: real
  p_biodiversity :: real
  p_ecosystem_health :: real

text \<open>The loop of \<^verbatim>\<open>predict_future\<close>, with the list \<^verbatim>\<open>predictions\<close> as accumulator.\<close>

fun predict_loop ::
  "nat \<Rightarrow> OceanSimulationEngine \<Rightarrow> ProjectionRecord list \<Rightarrow>
   py_error + (OceanSimulationEngine \<times> ProjectionRecord list)" where
  "predict_loop 0 e predictions = Inr (e, predictions)"
| "predict_loop (Suc n) e predictions =
     (case single_step e of
        Inl err \<Rightarrow> Inl err
      | Inr e' \<Rightarrow>
      (case calculate_biodiversity_index e' of
        Inl err \<Rightarrow> Inl err
      | Inr b \<Rightarrow>
      (case calculate_ecosystem_health e' of
        Inl err \<Rightarrow> Inl err
      | Inr h \<Rightarrow>
          predict_loop n e'
            (predictions @
             [\<lparr>p_week = week e',
               p_phytoplankton = py_round (phytoplankton (pop e')) 2,
               p_zooplankton = py_round (zooplankton (pop e')) 2,
               p_bacteria = py_round (bacteria (pop e')) 2,
               p_carbon_sequestration = py_round (calculate_carbon_sequestration e') 4,
               p_biodiversity = b,
               p_ecosystem_health = h\<rparr>]))))"

text \<open>
  \<^verbatim>\<open>predict_future\<close>. The copy \<^verbatim>\<open>EnvironmentalState(**self.env.__dict__)\<close> passes
  every instance attribute to the constructor, which accepts the six fields only and
  raises TypeError on any other keyword. Environment, population and week are saved and
  assigned back; the source saves and restores nothing else.
\<close>

definition predict_future ::
  "OceanSimulationEngine \<Rightarrow> int \<Rightarrow>
   py_error + (OceanSimulationEngine \<times> ProjectionRecord list)" where
  "predict_future e weeks_ahead =
     (if inst_attrs (env e) \<noteq> [] then Inl TypeError
      else
        let original_env = env e;
            original_pop = pop e;
            original_week = week e
        in case predict_loop (nat weeks_ahead) e [] of
             Inl err \<Rightarrow> Inl err
           | Inr (e', predictions) \<Rightarrow>
               Inr (e'\<lparr>env := original_env, pop := original_pop, week := original_week\<rparr>,
                    predictions))"

subsection \<open>Overrides and reset\<close>

text \<open>
  \<^verbatim>\<open>update_environment\<close> guards each assignment with
  \<^verbatim>\<open>hasattr(self.env, key)\<close>. An attribute lookup on the instance succeeds for the
  six fields, for any other entry of the instance dictionary, and for every name the
  class provides (its docstring, the methods \<^verbatim>\<open>@dataclass\<close> generates, what it
  inherits from \<^verbatim>\<open>object\<close>). Which names the class provides is decided by the
  Python runtime, not by this repository, so the class namespace is a parameter: it maps
  a name to the way an assignment through the instance behaves. \<open>Plain_attr\<close> is a
  plain value or a method, which the assignment shadows with a new instance attribute;
  \<open>Guarded_attr err\<close> is a descriptor whose setter raises \<open>err\<close> when given a float.
\<close>

datatype class_attr = Plain_attr | Guarded_attr py_error

type_synonym class_namespace = "string \<rightharpoonup> class_attr"

text \<open>
  Entries of the namespace that hold on every runtime: the docstring and the module
  name of the class, what \<^verbatim>\<open>@dataclass\<close> puts on it (three methods, the hash set
  to \<^verbatim>\<open>None\<close>, its two bookkeeping attributes), the methods inherited from
  \<^verbatim>\<open>object\<close>, and the three descriptors of an instance. The list is a lower bound:
  a newer runtime adds names of its own, which is why the functions below, and every
  general statement about them, take an arbitrary namespace.
\<close>

definition EnvironmentalState_class :: class_namespace where
  "EnvironmentalState_class =
     map_of
       [(''__doc__'', Plain_attr),
        (''__module__'', Plain_attr),
        (''__init__'', Plain_attr),
        (''__repr__'', Plain_attr),
        (''__eq__'', Plain_attr),
        (''__hash__'', Plain_attr),
        (''__dataclass_fields__'', Plain_attr),
        (''__dataclass_params__'', Plain_attr),
        (''__str__'', Plain_attr),
        (''__ne__'', Plain_attr),
        (''__lt__'', Plain_attr),
        (''__le__'', Plain_attr),
        (''__gt__'', Plain_attr),
        (''__ge__'', Plain_attr),
        (''__new__'', Plain_attr),
        (''__getattribute__'', Plain_attr),
        (''__setattr__'', Plain_attr),
        (''__delattr__'', Plain_attr),
        (''__format__'', Plain_attr),
        (''__sizeof__'', Plain_attr),
        (''__dir__'', Plain_attr),
        (''__reduce__'', Plain_attr),
        (''__reduce_ex__'', Plain_attr),
        (''__init_subclass__'', Plain_attr),
        (''__subclasshook__'', Plain_attr),
        (''__class__'', Guarded_attr TypeError),
        (''__dict__'', Guarded_attr TypeError),
        (''__weakref__'', Guarded_attr AttributeError)]"

definition field_names :: "string list" where
  "field_names =
     [''temperature'', ''nutrients'', ''light'', ''salinity'', ''ph'', ''dissolved_oxygen'']"

text \<open>\<^verbatim>\<open>hasattr(self.env, key)\<close>.\<close>

definition hasattr_env :: "class_namespace \<Rightarrow> EnvironmentalState \<Rightarrow> string \<Rightarrow> bool" where
  "hasattr_env cls ev key =
     (key \<in> set field_names \<or> key \<in> fst ` set (inst_attrs ev) \<or> cls key \<noteq> None)"

text \<open>Assignment to a key of a dictionary: in place when the key is present.\<close>

fun dict_set :: "(string \<times> real) list \<Rightarrow> string \<Rightarrow> real \<Rightarrow> (string \<times> real) list" where
  "dict_set [] k v = [(k, v)]"
| "dict_set ((k', v') # d) k v = (if k' = k then (k, v) # d else (k', v') # dict_set d k v)"

text \<open>\<^verbatim>\<open>setattr(self.env, key, value)\<close> for a float \<open>value\<close>.\<close>

definition setattr_env ::
  "class_namespace \<Rightarrow> EnvironmentalState \<Rightarrow> string \<Rightarrow> real \<Rightarrow> py_error + EnvironmentalState" where
  "setattr_env cls ev key v =
     (if key = ''temperature'' then Inr (ev\<lparr>temperature := v\<rparr>)
      else if key = ''nutrients'' then Inr (ev\<lparr>nutrients := v\<rparr>)
      else if key = ''light'' then Inr (ev\<lparr>light := v\<rparr>)
      else if key = ''salinity'' then Inr (ev\<lparr>salinity := v\<rparr>)
      else if key = ''ph'' then Inr (ev\<lparr>ph := v\<rparr>)
      else if key = ''dissolved_oxygen'' then Inr (ev\<lparr>dissolved_oxygen := v\<rparr>)
      else
        (case cls key of
           Some (Guarded_attr err) \<Rightarrow> Inl err
         | _ \<Rightarrow> Inr (ev\<lparr>inst_attrs := dict_set (inst_attrs ev) key v\<rparr>)))"

text \<open>
  The loop \<^verbatim>\<open>for key, value in kwargs.items()\<close>; \<open>kwargs\<close> lists the items in
  the order of the call (a dictionary: its keys are distinct).
\<close>

fun update_loop ::
  "class_namespace \<Rightarrow> EnvironmentalState \<Rightarrow> (string \<times> real) list \<Rightarrow>
   py_error + EnvironmentalState" where
  "update_loop cls ev [] = Inr ev"
| "update_loop cls ev ((key, v) # kwargs) =
     (if hasattr_env cls ev key then
        (case setattr_env cls ev key v of
           Inl err \<Rightarrow> Inl err
         | Inr ev' \<Rightarrow> update_loop cls ev' kwargs)
      else update_loop cls ev kwargs)"

definition update_environment ::
  "class_namespace \<Rightarrow> OceanSimulationEngine \<Rightarrow> (string \<times> real) list \<Rightarrow>
   py_error + OceanSimulationEngine" where
  "update_environment cls e kwargs =
     (case update_loop cls (env e) kwargs of
        Inl err \<Rightarrow> Inl err
      | Inr ev' \<Rightarrow> Inr (e\<lparr>env := ev'\<rparr>))"

text \<open>\<^verbatim>\<open>reset\<close>.\<close>

definition reset :: "OceanSimulationEngine \<Rightarrow> OceanSimulationEngine" where
  "reset e =
     e\<lparr>week := 0,
       history := [],
       total_carbon_sequestered := 0.0,
       pop := \<lparr>phytoplankton = 1000, zooplankton = 500, bacteria = 2000,
               cyanobacteria = 0.0, diatoms = 0.0, dinoflagellates = 0.0\<rparr>\<rparr>"

section \<open>The sensor simulator\<close>

subsection \<open>Readings\<close>

text \<open>
  \<^verbatim>\<open>generate_reading\<close> draws ten samples from \<^verbatim>\<open>np.random.normal\<close> and reads the
  clock once. Both are inputs of the model: \<open>Noise\<close> holds the ten samples in the order
  drawn (each already scaled by its standard deviation), and the clock reading is a
  number of seconds.
\<close>

record Noise =
  n_temperature :: real
  n_salinity :: real
  n_ph :: real
  n_dissolved_oxygen :: real
  n_turbidity :: real
  n_nitrate :: real
  n_phosphate :: real
  n_silicate :: real
  n_phytoplankton_count :: real
  n_bacteria_count :: real

type_synonym datetime = int

text \<open>The dictionary returned by \<^verbatim>\<open>generate_reading\<close>, one field per key.\<close>

record SensorReading =
  r_temperature :: real
  r_salinity :: real
  r_ph :: real
  r_dissolved_oxygen :: real
  r_turbidity :: real
  r_nitrate :: real
  r_phosphate :: real
  r_silicate :: real
  r_phytoplankton_count :: real
  r_bacteria_count :: real
  r_timestamp :: datetime

text \<open>
  The same dictionary after the buoy has added \<^verbatim>\<open>zone_id\<close>, \<^verbatim>\<open>zone_name\<close> and,
  in \<^verbatim>\<open>simulate_event\<close> only, \<^verbatim>\<open>event\<close> (\<open>None\<close>: the key is absent).
\<close>

record ZoneReading = SensorReading +
  r_zone_id :: int
  r_zone_name :: string
  r_event :: "string option"

definition zone_reading :: "SensorReading \<Rightarrow> int \<Rightarrow> string \<Rightarrow> string option \<Rightarrow> ZoneReading" where
  "zone_reading r z n ev =
     \<lparr>r_temperature = r_temperature r,
      r_salinity = r_salinity r,
      r_ph = r_ph r,
      r_dissolved_oxygen = r_dissolved_oxygen r,
      r_turbidity = r_turbidity r,
      r_nitrate = r_nitrate r,
      r_phosphate = r_phosphate r,
      r_silicate = r_silicate r,
      r_phytoplankton_count = r_phytoplankton_count r,
      r_bacteria_count = r_bacteria_count r,
      r_timestamp = r_timestamp r,
      r_zone_id = z, r_zone_name = n, r_event = ev\<rparr>"

subsection \<open>The generator\<close>

record SensorDataGenerator =
  base_temperature :: real
  base_salinity :: real
  latitude :: real
  depth :: real
  time_offset :: int

text \<open>\<^verbatim>\<open>SensorDataGenerator.__init__\<close>.\<close>

definition init_generator :: "real \<Rightarrow> real \<Rightarrow> real \<Rightarrow> real \<Rightarrow> SensorDataGenerator" where
  "init_generator bt bs lat d =
     \<lparr>base_temperature = bt, base_salinity = bs, latitude = lat, depth = d, time_offset = 0\<rparr>"

text \<open>\<^verbatim>\<open>generate_reading\<close>: the reading and the generator with its clock advanced.\<close>

definition generate_reading ::
  "SensorDataGenerator \<Rightarrow> Noise \<Rightarrow> datetime \<Rightarrow> SensorReading \<times> SensorDataGenerator" where
  "generate_reading g nz now =
     (let hour_of_day = time_offset g mod 24;
          day_of_year = (time_offset g div 24) mod 365;
          diurnal_temp = 2.0 * sin (2 * pi * of_int hour_of_day / 24);
          seasonal_temp = 5.0 * sin (2 * pi * of_int day_of_year / 365);
          depth_correction = - 0.05 * depth g;
          temperature =
            base_temperature g + diurnal_temp + seasonal_temp + depth_correction + n_temperature nz;
          salinity = base_salinity g + n_salinity nz;
          biological_cycle = 0.1 * sin (2 * pi * of_int hour_of_day / 24);
          ph = 8.1 + biological_cycle + n_ph nz;
          day_night_cycle = 1.0 * sin (2 * pi * (of_int hour_of_day + 12) / 24);
          do_base = 10.0 - (temperature - 20) * 0.2;
          dissolved_oxygen = max 4.0 (do_base + day_night_cycle + n_dissolved_oxygen nz);
          turbidity = max 0.1 (1.5 + n_turbidity nz);
          nitrate = max 0 (5.0 + n_nitrate nz);
          phosphate = max 0 (1.5 + n_phosphate nz);
          silicate = max 0 (8.0 + n_silicate nz);
          phyto_multiplier = (if 6 \<le> hour_of_day \<and> hour_of_day \<le> 18 then 1.5 else 0.8);
          phytoplankton_count = max 0 (1000 * phyto_multiplier + n_phytoplankton_count nz);
          bacteria_count = max 0 (5000 + n_bacteria_count nz)
      in (\<lparr>r_temperature = py_round temperature 2,
           r_salinity = py_round salinity 2,
           r_ph = py_round ph 2,
           r_dissolved_oxygen = py_round dissolved_oxygen 2,
           r_turbidity = py_round turbidity 2,
           r_nitrate = py_round nitrate 2,
           r_phosphate = py_round phosphate 2,
           r_silicate = py_round silicate 2,
           r_phytoplankton_count = py_round phytoplankton_count 2,
           r_bacteria_count = py_round bacteria_count 2,
           r_timestamp = now\<rparr>,
          g\<lparr>time_offset := time_offset g + 1\<rparr>))"

text \<open>
  \<^verbatim>\<open>SensorDataGenerator.simulate_event\<close>: the chain of \<^verbatim>\<open>if\<close>/\<^verbatim>\<open>elif\<close> on the
  tag has no \<^verbatim>\<open>else\<close>, so any other tag falls through to \<^verbatim>\<open>return reading\<close>.
\<close>

definition simulate_event ::
  "SensorDataGenerator \<Rightarrow> Noise \<Rightarrow> datetime \<Rightarrow> string \<Rightarrow> SensorReading \<times> SensorDataGenerator" where
  "simulate_event g nz now event_type =
     (let (reading, g') = generate_reading g nz now in
      (if event_type = ''algal_bloom'' then
         reading\<lparr>r_phytoplankton_count := r_phytoplankton_count reading * 5,
                 r_turbidity := r_turbidity reading * 3,
                 r_dissolved_oxygen := r_dissolved_oxygen reading * 1.5,
                 r_ph := r_ph reading + 0.2\<rparr>
       else if event_type = ''upwelling'' then
         reading\<lparr>r_temperature := r_temperature reading - 5,
                 r_nitrate := r_nitrate reading * 3,
                 r_phosphate := r_phosphate reading * 2.5,
                 r_phytoplankton_count := r_phytoplankton_count reading * 2\<rparr>
       else if event_type = ''storm'' then
         reading\<lparr>r_turbidity := r_turbidity reading * 4,
                 r_dissolved_oxygen := r_dissolved_oxygen reading * 1.3,
                 r_temperature := r_temperature reading - 2\<rparr>
       else if event_type = ''pollution'' then
         reading\<lparr>r_ph := r_ph reading - 0.3,
                 r_dissolved_oxygen := r_dissolved_oxygen reading * 0.6,
                 r_turbidity := r_turbidity reading * 2,
                 r_bacteria_count := r_bacteria_count reading * 3\<rparr>
       else reading,
       g'))"

subsection \<open>The buoy\<close>

record SmartBuoySimulator =
  zone_id :: int
  name :: string
  latitude :: real
  longitude :: real
  depth :: real
  sensor :: SensorDataGenerator
  is_active :: bool
  readings_count :: int

text \<open>\<^verbatim>\<open>_calculate_base_temperature\<close>, on the latitude given to the constructor.\<close>

definition calculate_base_temperature :: "real \<Rightarrow> real" where
  "calculate_base_temperature lat =
     (let lat_abs = \<bar>lat\<bar> in
      if lat_abs < 23.5 then 27.0
      else if lat_abs < 40 then 22.0
      else if lat_abs < 60 then 15.0
      else 5.0)"

text \<open>
  \<^verbatim>\<open>SmartBuoySimulator.__init__\<close>; the generator is built with its default
  \<^verbatim>\<open>base_salinity\<close> of 35.0.
\<close>

definition init_buoy :: "int \<Rightarrow> string \<Rightarrow> real \<Rightarrow> real \<Rightarrow> real \<Rightarrow> SmartBuoySimulator" where
  "init_buoy z n lat lon d =
     \<lparr>zone_id = z, name = n, latitude = lat, longitude = lon, depth = d,
      sensor = init_generator (calculate_base_temperature lat) 35.0 lat d,
      is_active = True, readings_count = 0\<rparr>"

text \<open>\<^verbatim>\<open>SmartBuoySimulator.get_current_reading\<close>.\<close>

definition get_current_reading ::
  "SmartBuoySimulator \<Rightarrow> Noise \<Rightarrow> datetime \<Rightarrow> ZoneReading \<times> SmartBuoySimulator" where
  "get_current_reading b nz now =
     (let (reading, g') = generate_reading (sensor b) nz now in
      (zone_reading reading (zone_id b) (name b) None, b\<lparr>sensor := g'\<rparr>))"

text \<open>\<^verbatim>\<open>SmartBuoySimulator.simulate_event\<close>; it passes the tag on without looking at it.\<close>

definition buoy_simulate_event ::
  "SmartBuoySimulator \<Rightarrow> Noise \<Rightarrow> datetime \<Rightarrow> string \<Rightarrow> ZoneReading \<times> SmartBuoySimulator" where
  "buoy_simulate_event b nz now event_type =
     (let (reading, g') = simulate_event (sensor b) nz now event_type in
      (zone_reading reading (zone_id b) (name b) (Some event_type), b\<lparr>sensor := g'\<rparr>))"

text \<open>\<^verbatim>\<open>SmartBuoySimulator.stop\<close>.\<close>

definition stop :: "SmartBuoySimulator \<Rightarrow> SmartBuoySimulator" where
  "stop b = b\<lparr>is_active := False\<rparr>"

subsection \<open>The registry\<close>

record SensorNetworkManager =
  buoys :: "int \<rightharpoonup> SmartBuoySimulator"

definition init_network :: SensorNetworkManager where
  "init_network = \<lparr>buoys = Map.empty\<rparr>"

text \<open>\<^verbatim>\<open>add_buoy\<close>: the buoy returned and the registry after the assignment.\<close>

definition add_buoy ::
  "SensorNetworkManager \<Rightarrow> int \<Rightarrow> string \<Rightarrow> real \<Rightarrow> real \<Rightarrow> real \<Rightarrow>
   SmartBuoySimulator \<times> SensorNetworkManager" where
  "add_buoy m z n lat lon d =
     (let buoy = init_buoy z n lat lon d in
      (buoy, m\<lparr>buoys := (buoys m)(z \<mapsto> buoy)\<rparr>))"

text \<open>
  \<^verbatim>\<open>remove_buoy\<close>: the buoy is stopped and its entry deleted, so the stopped
  object is no longer in the registry.
\<close>

definition remove_buoy :: "SensorNetworkManager \<Rightarrow> int \<Rightarrow> SensorNetworkManager" where
  "remove_buoy m z =
     (if z \<in> dom (buoys m) then m\<lparr>buoys := (buoys m)(z := None)\<rparr> else m)"

text \<open>\<^verbatim>\<open>get_buoy\<close>: \<^verbatim>\<open>self.buoys.get(zone_id)\<close>, \<open>None\<close> for an unknown zone.\<close>

definition get_buoy :: "SensorNetworkManager \<Rightarrow> int \<Rightarrow> SmartBuoySimulator option" where
  "get_buoy m z = buoys m z"

subsection \<open>The HTTP handler in front of the buoy\<close>

text \<open>
  \<^verbatim>\<open>simulate_event\<close> of \<^verbatim>\<open>app/api/sensors.py\<close>, after authentication: the zone
  row looked up in the database (\<open>zone_found\<close>), the registered buoy, the list
  \<^verbatim>\<open>valid_events\<close>, and only then the call of the buoy. The registry is a
  process-wide object that outlives the request, also when the handler raises, so the
  result is the response (\<open>Inl\<close> for an \<^verbatim>\<open>HTTPException\<close>) together with the
  registry after the request. The buoy is an object held by the registry: a call of its
  \<^verbatim>\<open>simulate_event\<close> advances the clock of the generator there, and nothing
  else in the handler touches the registry.
\<close>

datatype http_error = HTTP_404_NOT_FOUND | HTTP_400_BAD_REQUEST

definition valid_events :: "string list" where
  "valid_events = [''algal_bloom'', ''upwelling'', ''storm'', ''pollution'']"

definition api_simulate_event ::
  "bool \<Rightarrow> SensorNetworkManager \<Rightarrow> int \<Rightarrow> string \<Rightarrow> Noise \<Rightarrow> datetime \<Rightarrow>
   (http_error + ZoneReading) \<times> SensorNetworkManager" where
  "api_simulate_event zone_found m z event_type nz now =
     (if \<not> zone_found then (Inl HTTP_404_NOT_FOUND, m)
      else
        (case get_buoy m z of
           None \<Rightarrow> (Inl HTTP_400_BAD_REQUEST, m)
         | Some buoy \<Rightarrow>
             if event_type \<notin> set valid_events then (Inl HTTP_400_BAD_REQUEST, m)
             else
               let (reading, buoy') = buoy_simulate_event buoy nz now event_type in
               (Inr reading, m\<lparr>buoys := (buoys m)(z \<mapsto> buoy')\<rparr>)))"

section \<open>The update formulas as the specification words them\<close>

text \<open>
  The growth factors and the single update of the design document, written from its
  formulas alone: the factors are plain quotients, \<open>clip\<close> is the usual clamp, and the
  later formulas use the populations already updated.
\<close>

definition spec_clip :: "real \<Rightarrow> real \<Rightarrow> real \<Rightarrow> real" where
  "spec_clip x lo hi = (if x < lo then lo else if hi < x then hi else x)"

definition spec_F_temperature :: "EnvironmentalState \<Rightarrow> real" where
  "spec_F_temperature ev = exp (- ((temperature ev - 20)\<^sup>2 / 100))"

definition spec_F_nutrients :: "EnvironmentalState \<Rightarrow> real" where
  "spec_F_nutrients ev = nutrients ev / (nutrients ev + 20)"

definition spec_F_light :: "EnvironmentalState \<Rightarrow> real" where
  "spec_F_light ev = light ev / (light ev + 30)"

definition spec_phyto_net :: "EnvironmentalState \<Rightarrow> PopulationState \<Rightarrow> real" where
  "spec_phyto_net ev p =
     (0.4 * spec_F_nutrients ev + 0.35 * spec_F_light ev + 0.25 * spec_F_temperature ev) * 0.15
       - zooplankton p * 0.00015 - 0.05"

definition spec_phytoplankton :: "EnvironmentalState \<Rightarrow> PopulationState \<Rightarrow> real" where
  "spec_phytoplankton ev p = max 100 (phytoplankton p * (1 + spec_phyto_net ev p))"

definition spec_zoo_growth :: "EnvironmentalState \<Rightarrow> PopulationState \<Rightarrow> real" where
  "spec_zoo_growth ev p =
     min 1 (spec_phytoplankton ev p / 2000) * spec_F_temperature ev * 0.12 - 0.08"

definition spec_zooplankton :: "EnvironmentalState \<Rightarrow> PopulationState \<Rightarrow> real" where
  "spec_zooplankton ev p = max 50 (zooplankton p * (1 + spec_zoo_growth ev p))"

definition spec_bacteria_growth :: "EnvironmentalState \<Rightarrow> PopulationState \<Rightarrow> real" where
  "spec_bacteria_growth ev p =
     (spec_phytoplankton ev p * 0.0001 + spec_zooplankton ev p * 0.0002)
        * spec_F_temperature ev * 0.15
       + spec_F_nutrients ev * 0.08 - 0.03"

definition spec_bacteria :: "EnvironmentalState \<Rightarrow> PopulationState \<Rightarrow> real" where
  "spec_bacteria ev p = max 500 (bacteria p * (1 + spec_bacteria_growth ev p))"

definition spec_nutrients :: "EnvironmentalState \<Rightarrow> PopulationState \<Rightarrow> real" where
  "spec_nutrients ev p =
     spec_clip
       (nutrients ev - spec_phytoplankton ev p * 0.00012 + spec_bacteria ev p * 0.00008 + 0.5)
       0 100"

definition spec_ph :: "EnvironmentalState \<Rightarrow> PopulationState \<Rightarrow> real" where
  "spec_ph ev p =
     spec_clip (ph ev + spec_phyto_net ev p * 0.01 - spec_bacteria_growth ev p * 0.005) 7.5 8.5"

definition spec_dissolved_oxygen :: "EnvironmentalState \<Rightarrow> PopulationState \<Rightarrow> real" where
  "spec_dissolved_oxygen ev p =
     spec_clip
       (dissolved_oxygen ev + spec_phytoplankton ev p * 0.0001
          - (spec_zooplankton ev p + spec_bacteria ev p) * 0.00005)
       4.0 12.0"

text \<open>
  The biodiversity index of the design document: the Shannon index over the proportions
  of the three groups, a group of population zero left out of the sum.
\<close>

definition spec_shannon :: "real list \<Rightarrow> real" where
  "spec_shannon ps = - (\<Sum>p\<leftarrow>ps. p * ln p)"

definition spec_proportions :: "PopulationState \<Rightarrow> real list" where
  "spec_proportions p =
     (let species = [phytoplankton p, zooplankton p, bacteria p];
          total = phytoplankton p + zooplankton p + bacteria p
      in map (\<lambda>x. x / total) (filter (\<lambda>x. x \<noteq> 0) species))"

section \<open>Concrete inputs\<close>

text \<open>A noise sample in which every draw is zero, and a buoy on the equator.\<close>

definition zero_noise :: Noise where
  "zero_noise =
     \<lparr>n_temperature = 0, n_salinity = 0, n_ph = 0, n_dissolved_oxygen = 0,
      n_turbidity = 0, n_nitrate = 0, n_phosphate = 0, n_silicate = 0,
      n_phytoplankton_count = 0, n_bacteria_count = 0\<rparr>"

definition equator_buoy :: SmartBuoySimulator where
  "equator_buoy = init_buoy 1 ''A'' 0 0 0"

text \<open>An engine with a given population, in the default environment.\<close>

definition with_population :: "real \<Rightarrow> real \<Rightarrow> real \<Rightarrow> OceanSimulationEngine" where
  "with_population a b c =
     init_engine (env default_engine)
       \<lparr>phytoplankton = a, zooplankton = b, bacteria = c,
        cyanobacteria = 0, diatoms = 0, dinoflagellates = 0\<rparr>"

section \<open>Notions used in the statements\<close>

text \<open>\<^verbatim>\<open>kwargs.get(key, default)\<close> on the list of items.\<close>

definition dict_get :: "(string \<times> real) list \<Rightarrow> string \<Rightarrow> real \<Rightarrow> real" where
  "dict_get d k dflt = (case map_of d k of Some v \<Rightarrow> v | None \<Rightarrow> dflt)"

section \<open>Reset\<close>

text \<open>
  Claim C7. For every prior engine state, \<open>reset\<close> sets the week to 0, empties the
  history, sets the cumulative sequestered carbon to 0 and makes the population exactly
  phytoplankton 1000, zooplankton 500, bacteria 2000 (the three remaining groups of the
  dataclass at their default 0).
\<close>

theorem reset_restores_initial_state:
  "week (reset e) = 0 \<and> history (reset e) = [] \<and> total_carbon_sequestered (reset e) = 0 \<and>
   pop (reset e) =
     \<lparr>phytoplankton = 1000, zooplankton = 500, bacteria = 2000,
      cyanobacteria = 0, diatoms = 0, dinoflagellates = 0\<rparr>"
  by (simp add: reset_def)

text \<open>
  Claim C9. For every prior engine state, \<open>reset\<close> leaves the environment as it is
  (temperature, nutrients, light, salinity, ph and dissolved oxygen keep their current
  values); week, history, cumulative carbon and population are the only attributes of
  the engine it assigns.
\<close>

theorem reset_keeps_environment:
  "env (reset e) = env e \<and>
   temperature (env (reset e)) = temperature (env e) \<and>
   nutrients (env (reset e)) = nutrients (env e) \<and>
   light (env (reset e)) = light (env e) \<and>
   salinity (env (reset e)) = salinity (env e) \<and>
   ph (env (reset e)) = ph (env e) \<and>
   dissolved_oxygen (env (reset e)) = dissolved_oxygen (env e) \<and>
   reset e =
     e\<lparr>week := week (reset e), history := history (reset e),
       total_carbon_sequestered := total_carbon_sequestered (reset e),
       pop := pop (reset e)\<rparr>"
  by (simp add: reset_def)

section \<open>The registry\<close>

text \<open>
  Claim C8. For every registry and zone id, \<open>add_buoy\<close> builds a new buoy from its
  arguments and registers it under the id, replacing whatever was there: after two
  additions under the same id the registry is the one the second addition alone would
  give, and \<open>get_buoy\<close> returns the buoy built from the second call's name, latitude,
  longitude and depth.
\<close>

theorem add_buoy_overwrites:
  "fst (add_buoy m z n lat lon d) = init_buoy z n lat lon d \<and>
   get_buoy (snd (add_buoy m z n lat lon d)) z = Some (init_buoy z n lat lon d) \<and>
   snd (add_buoy (snd (add_buoy m z n1 lat1 lon1 d1)) z n2 lat2 lon2 d2) =
     snd (add_buoy m z n2 lat2 lon2 d2) \<and>
   get_buoy (snd (add_buoy (snd (add_buoy m z n1 lat1 lon1 d1)) z n2 lat2 lon2 d2)) z =
     Some (init_buoy z n2 lat2 lon2 d2) \<and>
   name (init_buoy z n2 lat2 lon2 d2) = n2 \<and>
   SmartBuoySimulator.latitude (init_buoy z n2 lat2 lon2 d2) = lat2 \<and>
   longitude (init_buoy z n2 lat2 lon2 d2) = lon2 \<and>
   SmartBuoySimulator.depth (init_buoy z n2 lat2 lon2 d2) = d2"
  by (simp add: add_buoy_def get_buoy_def init_buoy_def Let_def)

text \<open>The other zones of the registry are left as they were.\<close>

lemma add_buoy_other_zones:
  "z' \<noteq> z \<Longrightarrow> get_buoy (snd (add_buoy m z n lat lon d)) z' = get_buoy m z'"
  by (simp add: add_buoy_def get_buoy_def Let_def)

section \<open>Events\<close>

text \<open>
  Claim C5. For any generator state, noise sample and clock reading, the reading that
  \<open>simulate_event\<close> returns for the tag \<open>algal_bloom\<close> has five times the
  phytoplankton count of the reading just generated, three times its turbidity, one and
  a half times its dissolved oxygen and its ph plus 0.2; every other channel, and the
  generator's advanced clock, are those of the generated reading.
\<close>

theorem algal_bloom_transform:
  "(let r = fst (generate_reading g nz now);
        r' = fst (simulate_event g nz now ''algal_bloom'')
    in r_phytoplankton_count r' = r_phytoplankton_count r * 5 \<and>
       r_turbidity r' = r_turbidity r * 3 \<and>
       r_dissolved_oxygen r' = r_dissolved_oxygen r * 1.5 \<and>
       r_ph r' = r_ph r + 0.2 \<and>
       r_temperature r' = r_temperature r \<and>
       r_salinity r' = r_salinity r \<and>
       r_nitrate r' = r_nitrate r \<and>
       r_phosphate r' = r_phosphate r \<and>
       r_silicate r' = r_silicate r \<and>
       r_bacteria_count r' = r_bacteria_count r \<and>
       r_timestamp r' = r_timestamp r) \<and>
   snd (simulate_event g nz now ''algal_bloom'') = snd (generate_reading g nz now)"
  by (simp add: simulate_event_def Let_def split: prod.splits)

text \<open>
  Claim C4 says that the buoy's \<open>simulate_event\<close> fails for a tag outside the four
  events. It does not: for the tag \<open>tsunami\<close>, a fresh buoy on the equator and zero
  noise it returns the reading of hour 0, untransformed, with the tag attached.
\<close>

theorem unknown_tag_returns_reading:
  "''tsunami'' \<notin> set valid_events \<and>
   fst (buoy_simulate_event equator_buoy zero_noise 0 ''tsunami'') =
     \<lparr>r_temperature = 27, r_salinity = 35, r_ph = 8.1, r_dissolved_oxygen = 8.6,
      r_turbidity = 1.5, r_nitrate = 5, r_phosphate = 1.5, r_silicate = 8,
      r_phytoplankton_count = 800, r_bacteria_count = 5000, r_timestamp = 0,
      r_zone_id = 1, r_zone_name = ''A'', r_event = Some ''tsunami''\<rparr>"
  apply (simp add: valid_events_def buoy_simulate_event_def simulate_event_def
      generate_reading_def equator_buoy_def init_buoy_def init_generator_def
      calculate_base_temperature_def zero_noise_def zone_reading_def Let_def)
  apply (simp add: py_round_def)
  done

text \<open>
  What a call of the buoy does to the registry, for contrast with the rejection below:
  with a known zone, a registered buoy and one of the four tags the handler answers with
  the buoy's reading, and the buoy in the registry has its clock one hour further.
\<close>

lemma api_simulate_event_valid_tag:
  assumes "get_buoy m z = Some b" and "event_type \<in> set valid_events"
  shows "api_simulate_event True m z event_type nz now =
           (Inr (fst (buoy_simulate_event b nz now event_type)),
            m\<lparr>buoys := (buoys m)(z \<mapsto> snd (buoy_simulate_event b nz now event_type))\<rparr>) \<and>
         time_offset (sensor (snd (buoy_simulate_event b nz now event_type))) =
           time_offset (sensor b) + 1"
  using assms
  by (simp add: api_simulate_event_def buoy_simulate_event_def simulate_event_def
      generate_reading_def Let_def split: prod.splits)

text \<open>
  Claim C4, amended. For every tag outside the four events the buoy's
  \<open>simulate_event\<close> does not fail: it generates a reading, which advances the
  generator's clock, and returns that reading unchanged with zone id, zone name and the
  tag attached. The rejection is the HTTP handler's: for such a tag it answers with an
  error (404 for an unknown zone, 400 otherwise) and leaves the registry exactly as it
  was, so no buoy has been called and no clock has advanced.
\<close>

theorem unknown_tag_passes_through:
  assumes "event_type \<notin> set valid_events"
  shows "buoy_simulate_event b nz now event_type =
           (zone_reading (fst (generate_reading (sensor b) nz now))
              (zone_id b) (name b) (Some event_type),
            b\<lparr>sensor := snd (generate_reading (sensor b) nz now)\<rparr>) \<and>
         api_simulate_event zone_found m z event_type nz now =
           (Inl (if zone_found then HTTP_400_BAD_REQUEST else HTTP_404_NOT_FOUND), m)"
  using assms
  by (simp add: buoy_simulate_event_def simulate_event_def api_simulate_event_def
      valid_events_def Let_def split: prod.splits option.splits)

theorem unknown_tag_passes_through_witness:
  "''tsunami'' \<notin> set valid_events \<and>
   buoy_simulate_event equator_buoy zero_noise 0 ''tsunami'' =
     (zone_reading (fst (generate_reading (sensor equator_buoy) zero_noise 0))
        (zone_id equator_buoy) (name equator_buoy) (Some ''tsunami''),
      equator_buoy\<lparr>sensor := snd (generate_reading (sensor equator_buoy) zero_noise 0)\<rparr>) \<and>
   api_simulate_event True (snd (add_buoy init_network 1 ''A'' 0 0 0)) 1 ''tsunami'' zero_noise 0 =
     (Inl HTTP_400_BAD_REQUEST, snd (add_buoy init_network 1 ''A'' 0 0 0))"
proof -
  have h: "''tsunami'' \<notin> set valid_events"
    by (simp add: valid_events_def)
  show ?thesis
    using h
      unknown_tag_passes_through [OF h, of equator_buoy zero_noise 0 True
        "snd (add_buoy init_network 1 ''A'' 0 0 0)" 1]
    by simp
qed

section \<open>One step of the engine, taken apart\<close>

text \<open>
  The body of \<open>single_step\<close> is a chain of some twenty bindings. The two rules below
  walk through such a chain one binding at a time, so that every later fact is about
  named intermediate values.
\<close>

lemma LetE_eq:
  assumes "(let x = a in f x) = r"
  obtains x where "x = a" and "f x = r"
  using assms by simp

lemma single_step_growth_factors:
  assumes "single_step e = Inr e'"
  obtains fs where "calculate_growth_factors (env e) = Inr fs"
  using assms unfolding single_step_def
  by (cases "calculate_growth_factors (env e)") (simp_all only: sum.case sum.distinct)

lemma single_step_elim:
  assumes "single_step e = Inr e'"
  obtains fs png p' z' bg b' hr where
    "calculate_growth_factors (env e) = Inr fs"
    "png = (f_nutrients fs * 0.4 + f_light fs * 0.35 + f_temperature fs * 0.25) * 0.15
             - zooplankton (pop e) * 0.00015 - 0.05"
    "p' = max 100 (phytoplankton (pop e) * (1 + png))"
    "z' = max 50 (zooplankton (pop e) * (1 + (min 1 (p' / 2000) * f_temperature fs * 0.12 - 0.08)))"
    "bg = (p' * 0.0001 + z' * 0.0002) * f_temperature fs * 0.15 + f_nutrients fs * 0.08 - 0.03"
    "b' = max 500 (bacteria (pop e) * (1 + bg))"
    "pop e' = (pop e)\<lparr>phytoplankton := p', zooplankton := z', bacteria := b'\<rparr>"
    "env e' = (env e)\<lparr>nutrients := np_clip (nutrients (env e) - p' * 0.00012 + b' * 0.00008 + 0.5) 0 100,
                       ph := np_clip (ph (env e) + (png * 0.01 - bg * 0.005)) 7.5 8.5,
                       dissolved_oxygen :=
                         np_clip (dissolved_oxygen (env e) + p' * 0.0001 - (z' + b') * 0.00005) 4.0 12.0\<rparr>"
    "week e' = week e + 1"
    "total_carbon_sequestered e' = total_carbon_sequestered e + p' * 0.00022"
    "history e' = history e @ [hr]"
    "h_week hr = week e + 1"
proof -
  obtain fs where fs: "calculate_growth_factors (env e) = Inr fs"
    using assms by (rule single_step_growth_factors)
  from assms show ?thesis
    unfolding single_step_def fs sum.case
  proof (elim LetE_eq, goal_cases)
    case (1 phyto_growth grazing_loss phyto_net_growth phyto' zoo_food_factor zoo_growth zoo'
        organic_matter bacteria_growth bact' nutrient_uptake nutrient_regeneration nutrients'
        ph_change ph' oxygen_production oxygen_consumption oxygen' e1 carbon_seq e2)
    from 1(22) obtain b h where e': "e' = e2\<lparr>history := history e2 @
                     [\<lparr>h_week = week e2,
                       h_phytoplankton = phytoplankton (pop e2),
                       h_zooplankton = zooplankton (pop e2),
                       h_bacteria = bacteria (pop e2),
                       h_nutrients = nutrients (env e2),
                       h_temperature = temperature (env e2),
                       h_ph = ph (env e2),
                       h_carbon_sequestration = carbon_seq,
                       h_biodiversity = b,
                       h_ecosystem_health = h\<rparr>]\<rparr>"
      by (auto split: sum.splits)
    have png: "phyto_net_growth = (f_nutrients fs * 0.4 + f_light fs * 0.35 + f_temperature fs * 0.25) * 0.15
             - zooplankton (pop e) * 0.00015 - 0.05"
      by (simp only: 1(1,2,3))
    have zoo: "zoo' = max 50 (zooplankton (pop e) * (1 + (min 1 (phyto' / 2000) * f_temperature fs * 0.12 - 0.08)))"
      by (simp add: 1(5,6,7))
    have bg: "bacteria_growth = (phyto' * 0.0001 + zoo' * 0.0002) * f_temperature fs * 0.15 + f_nutrients fs * 0.08 - 0.03"
      by (simp only: 1(8,9))
    have pop_e': "pop e' = (pop e)\<lparr>phytoplankton := phyto', zooplankton := zoo', bacteria := bact'\<rparr>"
      by (simp add: e' 1(21) 1(19))
    have n': "nutrients' = np_clip (nutrients (env e) - phyto' * 0.00012 + bact' * 0.00008 + 0.5) 0 100"
      by (simp only: 1(11,12,13))
    have h': "ph' = np_clip (ph (env e) + (phyto_net_growth * 0.01 - bacteria_growth * 0.005)) 7.5 8.5"
      by (simp only: 1(14,15))
    have o': "oxygen' = np_clip (dissolved_oxygen (env e) + phyto' * 0.0001 - (zoo' + bact') * 0.00005) 4.0 12.0"
      by (simp only: 1(16,17,18))
    have env_e': "env e' = (env e)\<lparr>nutrients := nutrients', ph := ph', dissolved_oxygen := oxygen'\<rparr>"
      by (simp add: e' 1(21) 1(19))
    have wk: "week e' = week e + 1"
      by (simp add: e' 1(21) 1(19))
    have "carbon_seq = phyto' * 0.00022"
      by (simp add: 1(20) 1(19) calculate_carbon_sequestration_def)
    then have tc: "total_carbon_sequestered e' = total_carbon_sequestered e + phyto' * 0.00022"
      by (simp add: e' 1(21) 1(19))
    have hist: "history e' = history e @ [\<lparr>h_week = week e2,
                       h_phytoplankton = phytoplankton (pop e2),
                       h_zooplankton = zooplankton (pop e2),
                       h_bacteria = bacteria (pop e2),
                       h_nutrients = nutrients (env e2),
                       h_temperature = temperature (env e2),
                       h_ph = ph (env e2),
                       h_carbon_sequestration = carbon_seq,
                       h_biodiversity = b,
                       h_ecosystem_health = h\<rparr>]"
      by (simp add: e' 1(21) 1(19))
    have hw: "h_week \<lparr>h_week = week e2,
                       h_phytoplankton = phytoplankton (pop e2),
                       h_zooplankton = zooplankton (pop e2),
                       h_bacteria = bacteria (pop e2),
                       h_nutrients = nutrients (env e2),
                       h_temperature = temperature (env e2),
                       h_ph = ph (env e2),
                       h_carbon_sequestration = carbon_seq,
                       h_biodiversity = b,
                       h_ecosystem_health = h\<rparr> = week e + 1"
      by (simp add: 1(21) 1(19))
    show ?case
      by (rule that[OF fs png 1(4) zoo bg 1(10) pop_e' env_e'[unfolded n' h' o'] wk tc hist hw])
  qed
qed


lemma LetI_ex:
  assumes "\<And>x. x = a \<Longrightarrow> \<exists>y. f x = Inr y"
  shows "\<exists>y. (let x = a in f x) = Inr y"
  using assms by simp

lemma biodiversity_defined:
  assumes "0 < phytoplankton (pop e)" "0 < zooplankton (pop e)" "0 < bacteria (pop e)"
  shows "\<exists>b. calculate_biodiversity_index e = Inr b"
  using assms
  by (auto simp add: calculate_biodiversity_index_def Let_def math_log_def divide_le_0_iff)

lemma health_defined:
  assumes "0 < phytoplankton (pop e)" "0 < zooplankton (pop e)" "0 < bacteria (pop e)"
  shows "\<exists>h. calculate_ecosystem_health e = Inr h"
proof -
  obtain b where "calculate_biodiversity_index e = Inr b"
    using biodiversity_defined[OF assms] by blast
  then show ?thesis
    unfolding calculate_ecosystem_health_def Let_def by simp
qed

lemma growth_factors_defined:
  assumes "nutrients ev \<noteq> - 20" "light ev \<noteq> - 30"
  shows "\<exists>fs. calculate_growth_factors ev = Inr fs"
  using assms
  by (simp add: calculate_growth_factors_def py_div_def Let_def add_eq_0_iff)

lemma single_step_defined:
  assumes "nutrients (env e) \<noteq> - 20" "light (env e) \<noteq> - 30"
  shows "\<exists>e'. single_step e = Inr e'"
proof -
  obtain fs where fs: "calculate_growth_factors (env e) = Inr fs"
    using growth_factors_defined[OF assms] by blast
  show ?thesis
    unfolding single_step_def fs sum.case
  proof (intro LetI_ex, goal_cases)
    case (1 phyto_growth grazing_loss phyto_net_growth phyto' zoo_food_factor zoo_growth zoo'
        organic_matter bacteria_growth bact' nutrient_uptake nutrient_regeneration nutrients'
        ph_change ph' oxygen_production oxygen_consumption oxygen' e1 carbon_seq e2)
    have "pop e2 = pop e1" by (simp add: 1(21))
    then have pop2: "pop e2 = (pop e)\<lparr>phytoplankton := phyto', zooplankton := zoo', bacteria := bact'\<rparr>"
      by (simp add: 1(19))
    have "0 < phyto'" "0 < zoo'" "0 < bact'"
      by (simp_all add: 1(4) 1(7) 1(10) less_max_iff_disj)
    then have pos: "0 < phytoplankton (pop e2)" "0 < zooplankton (pop e2)" "0 < bacteria (pop e2)"
      by (simp_all add: pop2)
    obtain b h where "calculate_biodiversity_index e2 = Inr b" "calculate_ecosystem_health e2 = Inr h"
      using biodiversity_defined[OF pos] health_defined[OF pos] by blast
    then show ?case by simp
  qed
qed


lemma np_clip_range: "lo \<le> hi \<Longrightarrow> lo \<le> np_clip x lo hi \<and> np_clip x lo hi \<le> hi"
  by (simp add: np_clip_def)

lemma np_clip_eq_spec_clip: "lo \<le> hi \<Longrightarrow> np_clip x lo hi = spec_clip x lo hi"
  by (simp add: np_clip_def spec_clip_def)

lemma single_step_invariants:
  assumes "single_step e = Inr e'"
  shows "100 \<le> phytoplankton (pop e') \<and> 50 \<le> zooplankton (pop e') \<and>
         500 \<le> bacteria (pop e') \<and>
         7.5 \<le> ph (env e') \<and> ph (env e') \<le> 8.5 \<and>
         4.0 \<le> dissolved_oxygen (env e') \<and> dissolved_oxygen (env e') \<le> 12.0 \<and>
         0 \<le> nutrients (env e') \<and> nutrients (env e') \<le> 100"
  using assms
proof (rule single_step_elim)
  fix fs png p' z' bg b' hr
  assume p: "p' = max 100 (phytoplankton (pop e) * (1 + png))"
    and z: "z' = max 50 (zooplankton (pop e) *
                  (1 + (min 1 (p' / 2000) * f_temperature fs * 0.12 - 0.08)))"
    and b: "b' = max 500 (bacteria (pop e) * (1 + bg))"
    and pe: "pop e' = (pop e)\<lparr>phytoplankton := p', zooplankton := z', bacteria := b'\<rparr>"
    and ee: "env e' =
      (env e)\<lparr>nutrients := np_clip (nutrients (env e) - p' * 0.00012 + b' * 0.00008 + 0.5) 0 100,
               ph := np_clip (ph (env e) + (png * 0.01 - bg * 0.005)) 7.5 8.5,
               dissolved_oxygen :=
                 np_clip (dissolved_oxygen (env e) + p' * 0.0001 - (z' + b') * 0.00005) 4.0 12.0\<rparr>"
  have "100 \<le> p'" "50 \<le> z'" "500 \<le> b'"
    by (simp_all only: p z b max.cobounded1)
  then have pops: "100 \<le> phytoplankton (pop e') \<and> 50 \<le> zooplankton (pop e') \<and>
         500 \<le> bacteria (pop e')"
    by (simp add: pe)
  have "ph (env e') = np_clip (ph (env e) + (png * 0.01 - bg * 0.005)) 7.5 8.5"
    (is "_ = ?h")
    by (simp add: ee)
  moreover have "7.5 \<le> ?h \<and> ?h \<le> 8.5"
    by (rule np_clip_range) simp
  ultimately have phs: "7.5 \<le> ph (env e') \<and> ph (env e') \<le> 8.5"
    by (simp only:)
  have "dissolved_oxygen (env e') =
          np_clip (dissolved_oxygen (env e) + p' * 0.0001 - (z' + b') * 0.00005) 4.0 12.0"
    (is "_ = ?d")
    by (simp add: ee)
  moreover have "4.0 \<le> ?d \<and> ?d \<le> 12.0"
    by (rule np_clip_range) simp
  ultimately have oxs: "4.0 \<le> dissolved_oxygen (env e') \<and> dissolved_oxygen (env e') \<le> 12.0"
    by (simp only:)
  have "nutrients (env e') =
          np_clip (nutrients (env e) - p' * 0.00012 + b' * 0.00008 + 0.5) 0 100"
    (is "_ = ?n")
    by (simp add: ee)
  moreover have "0 \<le> ?n \<and> ?n \<le> 100"
    by (rule np_clip_range) simp
  ultimately have nts: "0 \<le> nutrients (env e') \<and> nutrients (env e') \<le> 100"
    by (simp only:)
  from pops phs oxs nts show ?thesis by blast
qed

lemma single_step_frame:
  assumes "single_step e = Inr e'"
  shows "temperature (env e') = temperature (env e) \<and> light (env e') = light (env e) \<and>
         salinity (env e') = salinity (env e) \<and> inst_attrs (env e') = inst_attrs (env e) \<and>
         week e' = week e + 1 \<and> length (history e') = Suc (length (history e))"
  using assms
proof (rule single_step_elim)
  fix fs png p' z' bg b' hr
  assume ee: "env e' =
      (env e)\<lparr>nutrients := np_clip (nutrients (env e) - p' * 0.00012 + b' * 0.00008 + 0.5) 0 100,
               ph := np_clip (ph (env e) + (png * 0.01 - bg * 0.005)) 7.5 8.5,
               dissolved_oxygen :=
                 np_clip (dissolved_oxygen (env e) + p' * 0.0001 - (z' + b') * 0.00005) 4.0 12.0\<rparr>"
    and w: "week e' = week e + 1" and h: "history e' = history e @ [hr]"
  show ?thesis unfolding ee by (simp add: w h)
qed

lemma step_loop_last:
  "step_loop (Suc n) e = Inr e' \<Longrightarrow> \<exists>e''. single_step e'' = Inr e'"
proof (induction n arbitrary: e)
  case 0
  then show ?case by (auto split: sum.splits)
next
  case (Suc n)
  from Suc.prems obtain e1 where "single_step e = Inr e1" "step_loop (Suc n) e1 = Inr e'"
    by (cases "single_step e") simp_all
  then show ?case using Suc.IH by blast
qed

lemma step_loop_defined:
  "nutrients (env e) \<noteq> - 20 \<Longrightarrow> light (env e) \<noteq> - 30 \<Longrightarrow> \<exists>e'. step_loop n e = Inr e'"
proof (induction n arbitrary: e)
  case 0
  then show ?case by simp
next
  case (Suc n)
  obtain e1 where e1: "single_step e = Inr e1"
    using single_step_defined[OF Suc.prems] by blast
  have "0 \<le> nutrients (env e1)" using single_step_invariants[OF e1] by blast
  then have n1: "nutrients (env e1) \<noteq> - 20" by simp
  have l1: "light (env e1) \<noteq> - 30" using single_step_frame[OF e1] Suc.prems(2) by simp
  from Suc.IH[OF n1 l1] e1 show ?case by simp
qed

lemma get_current_state_defined:
  assumes "0 < phytoplankton (pop e)" "0 < zooplankton (pop e)" "0 < bacteria (pop e)"
  shows "\<exists>s. get_current_state e = Inr s"
proof -
  obtain b h where "calculate_biodiversity_index e = Inr b" "calculate_ecosystem_health e = Inr h"
    using biodiversity_defined[OF assms] health_defined[OF assms] by blast
  then show ?thesis by (simp add: get_current_state_def)
qed

lemma step_defined:
  assumes "1 \<le> weeks" "nutrients (env e) \<noteq> - 20" "light (env e) \<noteq> - 30"
  shows "\<exists>e' s. step e weeks = Inr (e', s)"
proof -
  obtain n where n: "nat weeks = Suc n"
    using assms(1) by (cases "nat weeks") simp_all
  obtain e' where e': "step_loop (Suc n) e = Inr e'"
    using step_loop_defined[OF assms(2,3)] by blast
  then obtain e'' where "single_step e'' = Inr e'"
    using step_loop_last by blast
  from single_step_invariants[OF this]
  have "0 < phytoplankton (pop e')" "0 < zooplankton (pop e')" "0 < bacteria (pop e')"
    by simp_all
  from get_current_state_defined[OF this] obtain s where "get_current_state e' = Inr s" by blast
  then show ?thesis unfolding step_def n e' by simp
qed

lemma step_Inr_last:
  assumes "1 \<le> weeks" "step e weeks = Inr (e', s)"
  shows "\<exists>e''. single_step e'' = Inr e'"
proof -
  obtain n where n: "nat weeks = Suc n"
    using assms(1) by (cases "nat weeks") simp_all
  from assms(2) have "step_loop (Suc n) e = Inr e'"
    by (auto simp: step_def n split: sum.splits)
  then show ?thesis by (rule step_loop_last)
qed

section \<open>Invariants of stepping\<close>

text \<open>
  Claim C2. For every engine state and every number of weeks of at least 1, the state
  after \<open>step\<close> has phytoplankton at least 100, zooplankton at least 50, bacteria at
  least 500, ph between 7.5 and 8.5, dissolved oxygen between 4.0 and 12.0 and nutrients
  between 0 and 100. The call does return a state whenever the two Monod quotients are
  defined, that is for nutrients other than -20 and light other than -30.
\<close>

theorem step_invariants:
  assumes "1 \<le> weeks"
  shows "(step e weeks = Inr (e', s) \<longrightarrow>
           100 \<le> phytoplankton (pop e') \<and> 50 \<le> zooplankton (pop e') \<and>
           500 \<le> bacteria (pop e') \<and>
           7.5 \<le> ph (env e') \<and> ph (env e') \<le> 8.5 \<and>
           4.0 \<le> dissolved_oxygen (env e') \<and> dissolved_oxygen (env e') \<le> 12.0 \<and>
           0 \<le> nutrients (env e') \<and> nutrients (env e') \<le> 100) \<and>
         (nutrients (env e) \<noteq> - 20 \<and> light (env e) \<noteq> - 30 \<longrightarrow>
           (\<exists>e1 s1. step e weeks = Inr (e1, s1)))"
proof (rule conjI)
  show "step e weeks = Inr (e', s) \<longrightarrow>
           100 \<le> phytoplankton (pop e') \<and> 50 \<le> zooplankton (pop e') \<and>
           500 \<le> bacteria (pop e') \<and>
           7.5 \<le> ph (env e') \<and> ph (env e') \<le> 8.5 \<and>
           4.0 \<le> dissolved_oxygen (env e') \<and> dissolved_oxygen (env e') \<le> 12.0 \<and>
           0 \<le> nutrients (env e') \<and> nutrients (env e') \<le> 100"
  proof (rule impI)
    assume "step e weeks = Inr (e', s)"
    with assms obtain e'' where "single_step e'' = Inr e'"
      using step_Inr_last by blast
    then show "100 \<le> phytoplankton (pop e') \<and> 50 \<le> zooplankton (pop e') \<and>
           500 \<le> bacteria (pop e') \<and>
           7.5 \<le> ph (env e') \<and> ph (env e') \<le> 8.5 \<and>
           4.0 \<le> dissolved_oxygen (env e') \<and> dissolved_oxygen (env e') \<le> 12.0 \<and>
           0 \<le> nutrients (env e') \<and> nutrients (env e') \<le> 100"
      by (rule single_step_invariants)
  qed
next
  show "nutrients (env e) \<noteq> - 20 \<and> light (env e) \<noteq> - 30 \<longrightarrow>
           (\<exists>e1 s1. step e weeks = Inr (e1, s1))"
    using step_defined[OF assms] by blast
qed

lemma default_engine_env:
  "env default_engine =
     \<lparr>temperature = 20, nutrients = 50, light = 75, salinity = 35, ph = 8.1,
      dissolved_oxygen = 8, inst_attrs = []\<rparr>"
  by (simp add: default_engine_def create_simulation_engine_def init_engine_def)

lemma default_engine_pop:
  "pop default_engine =
     \<lparr>phytoplankton = 1000, zooplankton = 500, bacteria = 2000,
      cyanobacteria = 0, diatoms = 0, dinoflagellates = 0\<rparr>"
  by (simp add: default_engine_def create_simulation_engine_def init_engine_def)

lemma default_engine_rest:
  "week default_engine = 0 \<and> history default_engine = [] \<and>
   total_carbon_sequestered default_engine = 0"
  by (simp add: default_engine_def create_simulation_engine_def init_engine_def)

theorem step_invariants_witness:
  "(1::int) \<le> 1 \<and>
   (\<exists>e' s. step default_engine 1 = Inr (e', s) \<and>
      100 \<le> phytoplankton (pop e') \<and> 50 \<le> zooplankton (pop e') \<and>
      500 \<le> bacteria (pop e') \<and>
      7.5 \<le> ph (env e') \<and> ph (env e') \<le> 8.5 \<and>
      4.0 \<le> dissolved_oxygen (env e') \<and> dissolved_oxygen (env e') \<le> 12.0 \<and>
      0 \<le> nutrients (env e') \<and> nutrients (env e') \<le> 100)"
proof -
  have w: "(1::int) \<le> 1" by simp
  have pre: "nutrients (env default_engine) \<noteq> - 20 \<and> light (env default_engine) \<noteq> - 30"
    by (simp add: default_engine_env)
  from step_invariants[OF w, of default_engine] pre
  obtain e' s where r: "step default_engine 1 = Inr (e', s)" by blast
  with step_invariants[OF w, of default_engine e' s] w show ?thesis by blast
qed


section \<open>The step against the formulas of the specification\<close>

lemma growth_factors_spec:
  assumes "calculate_growth_factors ev = Inr fs"
  shows "f_temperature fs = spec_F_temperature ev \<and> f_nutrients fs = spec_F_nutrients ev \<and>
         f_light fs = spec_F_light ev"
  using assms
  by (auto simp add: calculate_growth_factors_def py_div_def Let_def spec_F_temperature_def
      spec_F_nutrients_def spec_F_light_def split: if_splits)

lemma single_step_spec:
  assumes "single_step e = Inr e'"
  shows "pop e' = (pop e)\<lparr>phytoplankton := spec_phytoplankton (env e) (pop e),
                           zooplankton := spec_zooplankton (env e) (pop e),
                           bacteria := spec_bacteria (env e) (pop e)\<rparr> \<and>
         env e' = (env e)\<lparr>nutrients := spec_nutrients (env e) (pop e),
                           ph := spec_ph (env e) (pop e),
                           dissolved_oxygen := spec_dissolved_oxygen (env e) (pop e)\<rparr>"
  using assms
proof (rule single_step_elim)
  fix fs png p' z' bg b' hr
  assume fs: "calculate_growth_factors (env e) = Inr fs"
    and png: "png = (f_nutrients fs * 0.4 + f_light fs * 0.35 + f_temperature fs * 0.25) * 0.15
             - zooplankton (pop e) * 0.00015 - 0.05"
    and p: "p' = max 100 (phytoplankton (pop e) * (1 + png))"
    and z: "z' = max 50 (zooplankton (pop e) *
                  (1 + (min 1 (p' / 2000) * f_temperature fs * 0.12 - 0.08)))"
    and bg: "bg = (p' * 0.0001 + z' * 0.0002) * f_temperature fs * 0.15 + f_nutrients fs * 0.08 - 0.03"
    and b: "b' = max 500 (bacteria (pop e) * (1 + bg))"
    and pe: "pop e' = (pop e)\<lparr>phytoplankton := p', zooplankton := z', bacteria := b'\<rparr>"
    and ee: "env e' =
      (env e)\<lparr>nutrients := np_clip (nutrients (env e) - p' * 0.00012 + b' * 0.00008 + 0.5) 0 100,
               ph := np_clip (ph (env e) + (png * 0.01 - bg * 0.005)) 7.5 8.5,
               dissolved_oxygen :=
                 np_clip (dissolved_oxygen (env e) + p' * 0.0001 - (z' + b') * 0.00005) 4.0 12.0\<rparr>"
  note F = growth_factors_spec[OF fs]
  have png': "png = spec_phyto_net (env e) (pop e)"
    by (simp add: png F spec_phyto_net_def)
  have p': "p' = spec_phytoplankton (env e) (pop e)"
    by (simp only: p png' spec_phytoplankton_def)
  have z': "z' = spec_zooplankton (env e) (pop e)"
    by (simp only: z p' F spec_zooplankton_def spec_zoo_growth_def)
  have bg': "bg = spec_bacteria_growth (env e) (pop e)"
    by (simp only: bg p' z' F spec_bacteria_growth_def)
  have b': "b' = spec_bacteria (env e) (pop e)"
    by (simp only: b bg' spec_bacteria_def)
  have n: "np_clip (nutrients (env e) - p' * 0.00012 + b' * 0.00008 + 0.5) 0 100 =
             spec_nutrients (env e) (pop e)"
    unfolding spec_nutrients_def p' b' by (rule np_clip_eq_spec_clip) simp
  have h: "np_clip (ph (env e) + (png * 0.01 - bg * 0.005)) 7.5 8.5 = spec_ph (env e) (pop e)"
  proof -
    have "ph (env e) + (png * 0.01 - bg * 0.005) =
          ph (env e) + spec_phyto_net (env e) (pop e) * 0.01
            - spec_bacteria_growth (env e) (pop e) * 0.005"
      by (simp only: png' bg' add_diff_eq)
    then show ?thesis
      unfolding spec_ph_def by (simp only:) (rule np_clip_eq_spec_clip, simp)
  qed
  have d: "np_clip (dissolved_oxygen (env e) + p' * 0.0001 - (z' + b') * 0.00005) 4.0 12.0 =
             spec_dissolved_oxygen (env e) (pop e)"
    unfolding spec_dissolved_oxygen_def p' z' b' by (rule np_clip_eq_spec_clip) simp
  show ?thesis
    unfolding pe ee n h d by (simp only: p' z' b' simp_thms)
qed


lemma step_one:
  assumes "step e 1 = Inr (e', s)"
  shows "single_step e = Inr e'"
  using assms
  by (auto simp add: step_def split: sum.splits)

lemma default_spec_factors:
  "spec_F_temperature (env default_engine) = 1 \<and>
   spec_F_nutrients (env default_engine) = 5 / 7 \<and>
   spec_F_light (env default_engine) = 5 / 7"
  by (simp add: spec_F_temperature_def spec_F_nutrients_def spec_F_light_def default_engine_env)

lemma default_spec_phyto_net:
  "spec_phyto_net (env default_engine) (pop default_engine) = - 1 / 140"
  by (simp add: spec_phyto_net_def default_spec_factors default_engine_pop)

lemma default_spec_phytoplankton:
  "spec_phytoplankton (env default_engine) (pop default_engine) = 6950 / 7"
  by (simp only: spec_phytoplankton_def default_spec_phyto_net)
    (simp add: default_engine_pop)

lemma default_spec_zooplankton:
  "spec_zooplankton (env default_engine) (pop default_engine) = 6857 / 14"
  by (simp only: spec_zooplankton_def spec_zoo_growth_def default_spec_phytoplankton
      default_spec_factors)
    (simp add: default_engine_pop)

lemma default_spec_bacteria_growth:
  "spec_bacteria_growth (env default_engine) (pop default_engine) = 79421 / 1400000"
  by (simp only: spec_bacteria_growth_def default_spec_phytoplankton default_spec_zooplankton
      default_spec_factors)
    simp

lemma default_spec_bacteria:
  "spec_bacteria (env default_engine) (pop default_engine) = 1479421 / 700"
  by (simp only: spec_bacteria_def default_spec_bacteria_growth)
    (simp add: default_engine_pop)

lemma default_spec_nutrients:
  "spec_nutrients (env default_engine) (pop default_engine) = 442311921 / 8750000"
  by (simp only: spec_nutrients_def default_spec_phytoplankton default_spec_bacteria)
    (simp add: spec_clip_def default_engine_env)

lemma default_spec_ph:
  "spec_ph (env default_engine) (pop default_engine) = 323985797 / 40000000"
  by (simp only: spec_ph_def default_spec_phyto_net default_spec_bacteria_growth)
    (simp add: spec_clip_def default_engine_env)

lemma default_spec_dissolved_oxygen:
  "spec_dissolved_oxygen (env default_engine) (pop default_engine) = 15938247 / 2000000"
  by (simp only: spec_dissolved_oxygen_def default_spec_phytoplankton
      default_spec_zooplankton default_spec_bacteria)
    (simp add: spec_clip_def default_engine_env)

text \<open>
  Claim C3. A single step computes exactly the formulas of the specification, in the
  order phytoplankton, zooplankton, bacteria, then nutrients, ph and oxygen, each formula
  reading the populations already updated in the same step (the zooplankton food factor
  reads the new phytoplankton, the organic matter of the bacteria the new phytoplankton
  and zooplankton). The step does return, with these values, for every engine whose
  nutrients are not -20 and whose light is not -30, the two inputs at which a Monod
  quotient divides by zero. For the engine created with the defaults 20.0, 50.0, 75.0,
  35.0 and the population 1000, 500, 2000, \<open>step\<close> by one week returns, and the six
  values are those of the formulas applied once, which are the fractions listed.
\<close>

theorem single_step_follows_spec_formulas:
  "(single_step e = Inr e' \<longrightarrow>
      pop e' = (pop e)\<lparr>phytoplankton := spec_phytoplankton (env e) (pop e),
                        zooplankton := spec_zooplankton (env e) (pop e),
                        bacteria := spec_bacteria (env e) (pop e)\<rparr> \<and>
      env e' = (env e)\<lparr>nutrients := spec_nutrients (env e) (pop e),
                        ph := spec_ph (env e) (pop e),
                        dissolved_oxygen := spec_dissolved_oxygen (env e) (pop e)\<rparr>) \<and>
   (nutrients (env e) \<noteq> - 20 \<and> light (env e) \<noteq> - 30 \<longrightarrow>
      (\<exists>e2. single_step e = Inr e2 \<and>
         pop e2 = (pop e)\<lparr>phytoplankton := spec_phytoplankton (env e) (pop e),
                           zooplankton := spec_zooplankton (env e) (pop e),
                           bacteria := spec_bacteria (env e) (pop e)\<rparr> \<and>
         env e2 = (env e)\<lparr>nutrients := spec_nutrients (env e) (pop e),
                           ph := spec_ph (env e) (pop e),
                           dissolved_oxygen := spec_dissolved_oxygen (env e) (pop e)\<rparr>)) \<and>
   (\<exists>e1 s1. step default_engine 1 = Inr (e1, s1) \<and>
      phytoplankton (pop e1) = spec_phytoplankton (env default_engine) (pop default_engine) \<and>
      zooplankton (pop e1) = spec_zooplankton (env default_engine) (pop default_engine) \<and>
      bacteria (pop e1) = spec_bacteria (env default_engine) (pop default_engine) \<and>
      nutrients (env e1) = spec_nutrients (env default_engine) (pop default_engine) \<and>
      ph (env e1) = spec_ph (env default_engine) (pop default_engine) \<and>
      dissolved_oxygen (env e1) =
        spec_dissolved_oxygen (env default_engine) (pop default_engine) \<and>
      phytoplankton (pop e1) = 6950 / 7 \<and>
      zooplankton (pop e1) = 6857 / 14 \<and>
      bacteria (pop e1) = 1479421 / 700 \<and>
      nutrients (env e1) = 442311921 / 8750000 \<and>
      ph (env e1) = 323985797 / 40000000 \<and>
      dissolved_oxygen (env e1) = 15938247 / 2000000)"
proof -
  have general: "single_step e = Inr e' \<longrightarrow>
      pop e' = (pop e)\<lparr>phytoplankton := spec_phytoplankton (env e) (pop e),
                        zooplankton := spec_zooplankton (env e) (pop e),
                        bacteria := spec_bacteria (env e) (pop e)\<rparr> \<and>
      env e' = (env e)\<lparr>nutrients := spec_nutrients (env e) (pop e),
                        ph := spec_ph (env e) (pop e),
                        dissolved_oxygen := spec_dissolved_oxygen (env e) (pop e)\<rparr>"
    using single_step_spec by blast
  have returns: "nutrients (env e) \<noteq> - 20 \<and> light (env e) \<noteq> - 30 \<longrightarrow>
      (\<exists>e2. single_step e = Inr e2 \<and>
         pop e2 = (pop e)\<lparr>phytoplankton := spec_phytoplankton (env e) (pop e),
                           zooplankton := spec_zooplankton (env e) (pop e),
                           bacteria := spec_bacteria (env e) (pop e)\<rparr> \<and>
         env e2 = (env e)\<lparr>nutrients := spec_nutrients (env e) (pop e),
                           ph := spec_ph (env e) (pop e),
                           dissolved_oxygen := spec_dissolved_oxygen (env e) (pop e)\<rparr>)"
  proof (rule impI)
    assume "nutrients (env e) \<noteq> - 20 \<and> light (env e) \<noteq> - 30"
    then obtain e2 where e2: "single_step e = Inr e2"
      using single_step_defined by blast
    from e2 single_step_spec[OF e2]
    show "\<exists>e2. single_step e = Inr e2 \<and>
         pop e2 = (pop e)\<lparr>phytoplankton := spec_phytoplankton (env e) (pop e),
                           zooplankton := spec_zooplankton (env e) (pop e),
                           bacteria := spec_bacteria (env e) (pop e)\<rparr> \<and>
         env e2 = (env e)\<lparr>nutrients := spec_nutrients (env e) (pop e),
                           ph := spec_ph (env e) (pop e),
                           dissolved_oxygen := spec_dissolved_oxygen (env e) (pop e)\<rparr>"
      by (intro exI[of _ e2] conjI) (simp_all only:)
  qed
  have "nutrients (env default_engine) \<noteq> - 20" "light (env default_engine) \<noteq> - 30"
    by (simp_all add: default_engine_env)
  with step_defined[of 1 default_engine]
  obtain e1 s1 where st: "step default_engine 1 = Inr (e1, s1)" by auto
  note sp = single_step_spec[OF step_one[OF st]]
  have vals:
    "phytoplankton (pop e1) = spec_phytoplankton (env default_engine) (pop default_engine)"
    "zooplankton (pop e1) = spec_zooplankton (env default_engine) (pop default_engine)"
    "bacteria (pop e1) = spec_bacteria (env default_engine) (pop default_engine)"
    "nutrients (env e1) = spec_nutrients (env default_engine) (pop default_engine)"
    "ph (env e1) = spec_ph (env default_engine) (pop default_engine)"
    "dissolved_oxygen (env e1) = spec_dissolved_oxygen (env default_engine) (pop default_engine)"
    by (simp_all add: sp)
  have scenario: "\<exists>e1 s1. step default_engine 1 = Inr (e1, s1) \<and>
      phytoplankton (pop e1) = spec_phytoplankton (env default_engine) (pop default_engine) \<and>
      zooplankton (pop e1) = spec_zooplankton (env default_engine) (pop default_engine) \<and>
      bacteria (pop e1) = spec_bacteria (env default_engine) (pop default_engine) \<and>
      nutrients (env e1) = spec_nutrients (env default_engine) (pop default_engine) \<and>
      ph (env e1) = spec_ph (env default_engine) (pop default_engine) \<and>
      dissolved_oxygen (env e1) =
        spec_dissolved_oxygen (env default_engine) (pop default_engine) \<and>
      phytoplankton (pop e1) = 6950 / 7 \<and>
      zooplankton (pop e1) = 6857 / 14 \<and>
      bacteria (pop e1) = 1479421 / 700 \<and>
      nutrients (env e1) = 442311921 / 8750000 \<and>
      ph (env e1) = 323985797 / 40000000 \<and>
      dissolved_oxygen (env e1) = 15938247 / 2000000"
    apply (rule exI[of _ e1], rule exI[of _ s1])
    apply (simp only: st vals simp_thms)
    apply (simp only: default_spec_phytoplankton default_spec_zooplankton default_spec_bacteria
        default_spec_nutrients default_spec_ph default_spec_dissolved_oxygen simp_thms)
    done
  show ?thesis
    by (rule conjI[OF general conjI[OF returns scenario]])
qed

theorem single_step_follows_spec_formulas_witness:
  "\<exists>e'. single_step default_engine = Inr e' \<and>
      pop e' = (pop default_engine)
                 \<lparr>phytoplankton := spec_phytoplankton (env default_engine) (pop default_engine),
                  zooplankton := spec_zooplankton (env default_engine) (pop default_engine),
                  bacteria := spec_bacteria (env default_engine) (pop default_engine)\<rparr> \<and>
      env e' = (env default_engine)
                 \<lparr>nutrients := spec_nutrients (env default_engine) (pop default_engine),
                  ph := spec_ph (env default_engine) (pop default_engine),
                  dissolved_oxygen :=
                    spec_dissolved_oxygen (env default_engine) (pop default_engine)\<rparr>"
proof -
  have pre: "nutrients (env default_engine) \<noteq> - 20 \<and> light (env default_engine) \<noteq> - 30"
    by (simp add: default_engine_env)
  with single_step_follows_spec_formulas[of default_engine]
  obtain e' where e': "single_step default_engine = Inr e'"
    by blast
  with single_step_follows_spec_formulas[of default_engine e'] show ?thesis
    by blast
qed


section \<open>Prediction\<close>

text \<open>
  What \<open>predict_future\<close> gives back when it returns: one projection per week asked
  for, and the environment, population and week it was called with. The history and the
  carbon total are those left by the steps it ran.
\<close>

lemma predict_loop_props:
  "predict_loop n e ps = Inr (e', ps') \<Longrightarrow>
     length ps' = length ps + n \<and> length (history e') = length (history e) + n \<and>
     total_carbon_sequestered e \<le> total_carbon_sequestered e' \<and>
     (0 < n \<longrightarrow> total_carbon_sequestered e < total_carbon_sequestered e')"
proof (induction n arbitrary: e ps)
  case 0
  then show ?case by simp
next
  case (Suc n)
  from Suc.prems obtain e1 where e1: "single_step e = Inr e1"
    by (cases "single_step e") simp_all
  from Suc.prems e1 obtain b where b: "calculate_biodiversity_index e1 = Inr b"
    by (cases "calculate_biodiversity_index e1") simp_all
  from Suc.prems e1 b obtain h where h: "calculate_ecosystem_health e1 = Inr h"
    by (cases "calculate_ecosystem_health e1") simp_all
  from Suc.prems obtain r where rest: "predict_loop n e1 (ps @ [r]) = Inr (e', ps')"
    by (simp add: e1 b h)
  note IH = Suc.IH[OF rest]
  have len: "length (history e1) = Suc (length (history e))"
    using single_step_frame[OF e1] by blast
  have "total_carbon_sequestered e < total_carbon_sequestered e1"
    using e1
  proof (rule single_step_elim)
    fix fs png p' z' bg b' hr
    assume p: "p' = max 100 (phytoplankton (pop e) * (1 + png))"
      and tc: "total_carbon_sequestered e1 = total_carbon_sequestered e + p' * 0.00022"
    have "100 \<le> p'" by (simp only: p max.cobounded1)
    then show ?thesis by (simp add: tc)
  qed
  with IH len show ?case by auto
qed

lemma predict_loop_defined:
  "nutrients (env e) \<noteq> - 20 \<Longrightarrow> light (env e) \<noteq> - 30 \<Longrightarrow>
     \<exists>e' ps'. predict_loop n e ps = Inr (e', ps')"
proof (induction n arbitrary: e ps)
  case 0
  then show ?case by simp
next
  case (Suc n)
  obtain e1 where e1: "single_step e = Inr e1"
    using single_step_defined[OF Suc.prems] by blast
  note inv = single_step_invariants[OF e1]
  have n1: "nutrients (env e1) \<noteq> - 20" using inv by simp
  have l1: "light (env e1) \<noteq> - 30" using single_step_frame[OF e1] Suc.prems(2) by simp
  have pos: "0 < phytoplankton (pop e1)" "0 < zooplankton (pop e1)" "0 < bacteria (pop e1)"
    using inv by simp_all
  obtain b h where bh: "calculate_biodiversity_index e1 = Inr b"
      "calculate_ecosystem_health e1 = Inr h"
    using biodiversity_defined[OF pos] health_defined[OF pos] by blast
  show ?case
    using Suc.IH[OF n1 l1] by (simp add: e1 bh)
qed

lemma predict_future_props:
  assumes "predict_future e k = Inr (e', ps)"
  shows "length ps = nat k \<and> env e' = env e \<and> pop e' = pop e \<and> week e' = week e \<and>
         length (history e') = length (history e) + nat k \<and>
         total_carbon_sequestered e \<le> total_carbon_sequestered e' \<and>
         (1 \<le> k \<longrightarrow> total_carbon_sequestered e < total_carbon_sequestered e')"
proof -
  from assms have empty: "inst_attrs (env e) = []"
    by (auto simp add: predict_future_def split: if_splits)
  from assms obtain e2 where loop: "predict_loop (nat k) e [] = Inr (e2, ps)"
    and e': "e' = e2\<lparr>env := env e, pop := pop e, week := week e\<rparr>"
    by (auto simp add: predict_future_def empty Let_def split: sum.splits)
  from predict_loop_props[OF loop] show ?thesis
    by (auto simp add: e')
qed

lemma predict_future_defined:
  assumes "inst_attrs (env e) = []" "nutrients (env e) \<noteq> - 20" "light (env e) \<noteq> - 30"
  shows "\<exists>e' ps. predict_future e k = Inr (e', ps)"
proof -
  obtain e2 ps where "predict_loop (nat k) e [] = Inr (e2, ps)"
    using predict_loop_defined[OF assms(2,3)] by blast
  then show ?thesis
    by (simp add: predict_future_def assms(1) Let_def)
qed

lemma predict_future_nonpositive:
  assumes "k \<le> 0" "inst_attrs (env e) = []"
  shows "predict_future e k = Inr (e, [])"
  using assms by (simp add: predict_future_def Let_def)

lemma single_step_carbon:
  assumes "single_step e = Inr e'"
  shows "total_carbon_sequestered e' =
           total_carbon_sequestered e + phytoplankton (pop e') * 0.00022"
  using assms
proof (rule single_step_elim)
  fix fs png p' z' bg b' hr
  assume pe: "pop e' = (pop e)\<lparr>phytoplankton := p', zooplankton := z', bacteria := b'\<rparr>"
    and tc: "total_carbon_sequestered e' = total_carbon_sequestered e + p' * 0.00022"
  show ?thesis by (simp add: tc pe)
qed

lemma predict_future_one:
  assumes "predict_future e 1 = Inr (e', ps)"
  shows "\<exists>e1. single_step e = Inr e1 \<and>
               total_carbon_sequestered e' = total_carbon_sequestered e1 \<and>
               history e' = history e1"
  using assms
  by (auto simp add: predict_future_def Let_def split: if_splits sum.splits)

lemma get_current_state_total:
  assumes "get_current_state e = Inr s"
  shows "s_total_carbon_sequestered (s_metrics s) = py_round (total_carbon_sequestered e) 2"
  using assms
  by (auto simp add: get_current_state_def split: sum.splits)

text \<open>
  Claim C1 asks that \<open>predict_future\<close> leave environment, population, week and
  history, hence the current state, as they were, and return one record per week. On
  the engine created with the defaults, predicting one week ahead returns one record
  and restores environment, population and week; but the history, empty before, has
  one record afterwards, and the carbon total has moved from 0 to 1529/7000, so that the
  snapshot of the current state reports 0.22 where it reported 0.
\<close>

theorem predict_future_grows_history:
  "\<exists>e' ps s0 s1.
     predict_future default_engine 1 = Inr (e', ps) \<and>
     length ps = 1 \<and>
     env e' = env default_engine \<and> pop e' = pop default_engine \<and>
     week e' = week default_engine \<and>
     history default_engine = [] \<and> length (history e') = 1 \<and>
     total_carbon_sequestered default_engine = 0 \<and>
     total_carbon_sequestered e' = 1529 / 7000 \<and>
     get_current_state default_engine = Inr s0 \<and>
     get_current_state e' = Inr s1 \<and>
     s_total_carbon_sequestered (s_metrics s0) = 0 \<and>
     s_total_carbon_sequestered (s_metrics s1) = 0.22"
proof -
  have pre: "inst_attrs (env default_engine) = []" "nutrients (env default_engine) \<noteq> - 20"
      "light (env default_engine) \<noteq> - 30"
    by (simp_all add: default_engine_env)
  from predict_future_defined[OF pre, of 1]
  obtain e' ps where r: "predict_future default_engine 1 = Inr (e', ps)" by blast
  note props = predict_future_props[OF r]
  from predict_future_one[OF r] obtain e1 where
    e1: "single_step default_engine = Inr e1" and
    tc1: "total_carbon_sequestered e' = total_carbon_sequestered e1"
    by blast
  have "phytoplankton (pop e1) = spec_phytoplankton (env default_engine) (pop default_engine)"
    by (simp add: single_step_spec[OF e1])
  then have ph1: "phytoplankton (pop e1) = 6950 / 7"
    by (simp only: default_spec_phytoplankton)
  have tc: "total_carbon_sequestered e' = 1529 / 7000"
    unfolding tc1 single_step_carbon[OF e1] ph1 by (simp add: default_engine_rest)
  have pos0: "0 < phytoplankton (pop default_engine)" "0 < zooplankton (pop default_engine)"
    "0 < bacteria (pop default_engine)"
    by (simp_all add: default_engine_pop)
  then obtain s0 where s0: "get_current_state default_engine = Inr s0"
    using get_current_state_defined by blast
  have "pop e' = pop default_engine" using props by blast
  with pos0 have "0 < phytoplankton (pop e')" "0 < zooplankton (pop e')" "0 < bacteria (pop e')"
    by simp_all
  then obtain s1 where s1: "get_current_state e' = Inr s1"
    using get_current_state_defined by blast
  have v0: "s_total_carbon_sequestered (s_metrics s0) = 0"
    unfolding get_current_state_total[OF s0] by (simp add: default_engine_rest py_round_def)
  have v1: "s_total_carbon_sequestered (s_metrics s1) = 0.22"
    unfolding get_current_state_total[OF s1] tc by (simp add: py_round_def)
  from r props default_engine_rest tc s0 s1 v0 v1 show ?thesis
    by auto
qed


section \<open>The biodiversity index\<close>

lemma py_round_of_int: "py_round (of_int k) n = of_int k"
proof -
  have eq: "real_of_int k * 10 ^ n = of_int (k * 10 ^ n)" by simp
  have fl: "\<lfloor>real_of_int k * 10 ^ n\<rfloor> = k * 10 ^ n" unfolding eq by (rule floor_of_int)
  show ?thesis unfolding py_round_def Let_def fl by simp
qed

lemma sum_p_log_p_pos:
  "\<forall>p\<in>set ps. 0 < p \<Longrightarrow> sum_p_log_p ps = Inr (\<Sum>p\<leftarrow>ps. p * ln p)"
  by (induction ps) (auto simp add: math_log_def not_le)

lemma py_round_0: "py_round 0 n = 0"
  by (simp add: py_round_def)

lemma py_round_1: "py_round 1 n = 1"
  using py_round_of_int[of 1 n] by simp

lemma py_round_multiple: "\<exists>k::int. py_round x n = of_int k / 10 ^ n"
  unfolding py_round_def Let_def by (simp only: split: if_splits) blast

lemma biodiversity_zero_total:
  assumes "phytoplankton (pop e) + zooplankton (pop e) + bacteria (pop e) = 0"
  shows "calculate_biodiversity_index e = Inr 0"
  using assms by (simp add: calculate_biodiversity_index_def add.assoc)

lemma biodiversity_nonneg:
  assumes "0 \<le> phytoplankton (pop e)" "0 \<le> zooplankton (pop e)" "0 \<le> bacteria (pop e)"
    and "phytoplankton (pop e) + zooplankton (pop e) + bacteria (pop e) \<noteq> 0"
  shows "calculate_biodiversity_index e =
           Inr (py_round (spec_shannon (spec_proportions (pop e)) / ln 3) 3)"
proof -
  let ?t = "phytoplankton (pop e) + zooplankton (pop e) + bacteria (pop e)"
  let ?xs = "[phytoplankton (pop e), zooplankton (pop e), bacteria (pop e)]"
  have t: "0 < ?t" using assms by linarith
  have f: "filter (\<lambda>x. x > 0) ?xs = filter (\<lambda>x. x \<noteq> 0) ?xs"
    using assms(1-3) by (intro filter_cong) auto
  have pos: "\<forall>p\<in>set (map (\<lambda>x. x / ?t) (filter (\<lambda>x. x > 0) ?xs)). 0 < p"
    unfolding set_map set_filter using t by (auto intro!: divide_pos_pos)
  have s: "sum_p_log_p (map (\<lambda>x. x / ?t) (filter (\<lambda>x. x > 0) ?xs)) =
        Inr (\<Sum>p\<leftarrow>map (\<lambda>x. x / ?t) (filter (\<lambda>x. x > 0) ?xs). p * ln p)"
    using pos by (rule sum_p_log_p_pos)
  have tot: "sum_list ?xs = ?t" by simp
  have "calculate_biodiversity_index e =
      Inr (py_round (- (\<Sum>p\<leftarrow>map (\<lambda>x. x / ?t) (filter (\<lambda>x. x > 0) ?xs). p * ln p) / ln 3) 3)"
    unfolding calculate_biodiversity_index_def Let_def tot using t by (simp only: s) simp
  then show ?thesis
    unfolding spec_shannon_def spec_proportions_def Let_def f by simp
qed


lemma biodiversity_equal_positive:
  assumes "0 < phytoplankton (pop e)" "zooplankton (pop e) = phytoplankton (pop e)"
    "bacteria (pop e) = phytoplankton (pop e)"
  shows "calculate_biodiversity_index e = Inr 1"
proof -
  let ?a = "phytoplankton (pop e)"
  have third: "?a / (?a + ?a + ?a) = 1 / 3"
    using assms(1) by (simp add: field_simps)
  have props: "spec_proportions (pop e) = [1 / 3, 1 / 3, 1 / 3]"
    using assms(1) by (simp add: spec_proportions_def assms(2,3) third)
  have "spec_shannon [1 / 3, 1 / 3, 1 / 3] = ln 3"
    by (simp add: spec_shannon_def ln_div)
  then have one: "spec_shannon (spec_proportions (pop e)) / ln 3 = 1"
    by (simp add: props)
  have "calculate_biodiversity_index e =
          Inr (py_round (spec_shannon (spec_proportions (pop e)) / ln 3) 3)"
    by (rule biodiversity_nonneg) (use assms in simp_all)
  then show ?thesis by (simp only: one py_round_1)
qed

lemma biodiversity_single_species:
  assumes "(phytoplankton (pop e) \<noteq> 0 \<and> zooplankton (pop e) = 0 \<and> bacteria (pop e) = 0) \<or>
           (phytoplankton (pop e) = 0 \<and> zooplankton (pop e) \<noteq> 0 \<and> bacteria (pop e) = 0) \<or>
           (phytoplankton (pop e) = 0 \<and> zooplankton (pop e) = 0 \<and> bacteria (pop e) \<noteq> 0)"
  shows "calculate_biodiversity_index e = Inr 0"
  using assms
  by (auto simp add: calculate_biodiversity_index_def Let_def math_log_def py_round_0)

lemma ln2_ln3_independent:
  assumes "0 < m"
  shows "of_nat m * ln (2::real) \<noteq> of_int k * ln 3"
proof
  assume eq: "of_nat m * ln (2::real) = of_int k * ln 3"
  have l2: "0 < ln (2::real)" and l3: "0 < ln (3::real)" by simp_all
  have "0 < of_nat m * ln (2::real)" using assms l2 by simp
  then have "0 < real_of_int k * ln 3" by (simp only: eq)
  then have "0 < real_of_int k" using l3 by (simp add: zero_less_mult_iff)
  then have kpos: "0 < k" by simp
  define n where "n = nat k"
  have k: "real_of_int k = of_nat n" using kpos by (simp add: n_def)
  have "ln ((2::real) ^ m) = ln (3 ^ n)"
    using eq by (simp add: ln_realpow k)
  then have "(2::real) ^ m = 3 ^ n" by simp
  then have "real ((2::nat) ^ m) = real (3 ^ n)" by simp
  then have "(2::nat) ^ m = 3 ^ n" by (simp only: of_nat_eq_iff)
  moreover have "even ((2::nat) ^ m)" using assms by simp
  moreover have "odd ((3::nat) ^ n)" by simp
  ultimately show False by simp
qed

lemma py_round_ne_log_ratio: "py_round x 3 \<noteq> ln 2 / ln 3"
proof
  assume eq: "py_round x 3 = ln 2 / ln 3"
  obtain k :: int where k: "py_round x 3 = of_int k / 10 ^ 3"
    using py_round_multiple by blast
  have "0 < ln (3::real)" by simp
  with eq k have "of_nat 1000 * ln (2::real) = of_int k * ln 3"
    by (simp add: field_simps)
  then show False using ln2_ln3_independent[of 1000 k] by simp
qed

text \<open>
  Claim C6 says that for every population state the index is the Shannon index over the
  proportions, normalised by \<open>ln 3\<close>, and that it is 1 for equal nonzero populations.
  Three populations show otherwise. For 1, 1, 0 the normalised Shannon index is
  \<open>ln 2 / ln 3\<close>, which is no multiple of a thousandth, while the code returns a value
  rounded to three decimals. For -1, -1, -1 the populations are equal and nonzero and
  the code returns 0. For 1, -3, 0 the proportion of the one positive group is negative
  and \<^verbatim>\<open>math.log\<close> raises ValueError.
\<close>

theorem biodiversity_not_plain_shannon:
  "calculate_biodiversity_index (with_population 1 1 0) \<noteq>
     Inr (spec_shannon (spec_proportions (pop (with_population 1 1 0))) / ln 3) \<and>
   calculate_biodiversity_index (with_population (- 1) (- 1) (- 1)) = Inr 0 \<and>
   calculate_biodiversity_index (with_population 1 (- 3) 0) = Inl ValueError"
proof (intro conjI)
  have sh: "spec_shannon (spec_proportions (pop (with_population 1 1 0))) = ln 2"
    by (simp add: spec_shannon_def spec_proportions_def with_population_def init_engine_def
        ln_div)
  have "calculate_biodiversity_index (with_population 1 1 0) =
          Inr (py_round (spec_shannon (spec_proportions (pop (with_population 1 1 0))) / ln 3) 3)"
    by (rule biodiversity_nonneg) (simp_all add: with_population_def init_engine_def)
  then show "calculate_biodiversity_index (with_population 1 1 0) \<noteq>
     Inr (spec_shannon (spec_proportions (pop (with_population 1 1 0))) / ln 3)"
    unfolding sh using py_round_ne_log_ratio by simp
next
  show "calculate_biodiversity_index (with_population (- 1) (- 1) (- 1)) = Inr 0"
    by (simp add: calculate_biodiversity_index_def with_population_def init_engine_def
        py_round_0)
next
  show "calculate_biodiversity_index (with_population 1 (- 3) 0) = Inl ValueError"
    by (simp add: calculate_biodiversity_index_def with_population_def init_engine_def
        math_log_def)
qed

text \<open>
  Claim C6, amended. The index is 0 whenever the total population is 0. For every
  population state without a negative population and with a nonzero total it is the
  Shannon index over the proportions of the nonzero populations, normalised by \<open>ln 3\<close>
  and rounded to three decimals. It is exactly 1 when the three populations are equal
  and positive, and exactly 0 when exactly one population is nonzero.
\<close>

theorem biodiversity_index_rounded_shannon:
  "(phytoplankton (pop e) + zooplankton (pop e) + bacteria (pop e) = 0 \<longrightarrow>
      calculate_biodiversity_index e = Inr 0) \<and>
   (0 \<le> phytoplankton (pop e) \<and> 0 \<le> zooplankton (pop e) \<and> 0 \<le> bacteria (pop e) \<and>
    phytoplankton (pop e) + zooplankton (pop e) + bacteria (pop e) \<noteq> 0 \<longrightarrow>
      calculate_biodiversity_index e =
        Inr (py_round (spec_shannon (spec_proportions (pop e)) / ln 3) 3)) \<and>
   (0 < phytoplankton (pop e) \<and> zooplankton (pop e) = phytoplankton (pop e) \<and>
    bacteria (pop e) = phytoplankton (pop e) \<longrightarrow>
      calculate_biodiversity_index e = Inr 1) \<and>
   ((phytoplankton (pop e) \<noteq> 0 \<and> zooplankton (pop e) = 0 \<and> bacteria (pop e) = 0) \<or>
    (phytoplankton (pop e) = 0 \<and> zooplankton (pop e) \<noteq> 0 \<and> bacteria (pop e) = 0) \<or>
    (phytoplankton (pop e) = 0 \<and> zooplankton (pop e) = 0 \<and> bacteria (pop e) \<noteq> 0) \<longrightarrow>
      calculate_biodiversity_index e = Inr 0)"
  using biodiversity_zero_total[of e] biodiversity_nonneg[of e]
    biodiversity_equal_positive[of e] biodiversity_single_species[of e]
  by blast

theorem biodiversity_index_rounded_shannon_witness:
  "calculate_biodiversity_index (with_population 0 0 0) = Inr 0 \<and>
   calculate_biodiversity_index (with_population 1000 500 2000) =
     Inr (py_round
            (spec_shannon (spec_proportions (pop (with_population 1000 500 2000))) / ln 3) 3) \<and>
   calculate_biodiversity_index (with_population 100 100 100) = Inr 1 \<and>
   calculate_biodiversity_index (with_population 0 7 0) = Inr 0"
proof -
  have a: "calculate_biodiversity_index (with_population 0 0 0) = Inr 0"
    using biodiversity_index_rounded_shannon[of "with_population 0 0 0", THEN conjunct1]
    by (simp add: with_population_def init_engine_def)
  have b: "calculate_biodiversity_index (with_population 1000 500 2000) =
     Inr (py_round
            (spec_shannon (spec_proportions (pop (with_population 1000 500 2000))) / ln 3) 3)"
    using biodiversity_index_rounded_shannon[of "with_population 1000 500 2000",
        THEN conjunct2, THEN conjunct1]
    by (simp add: with_population_def init_engine_def)
  have c: "calculate_biodiversity_index (with_population 100 100 100) = Inr 1"
    using biodiversity_index_rounded_shannon[of "with_population 100 100 100",
        THEN conjunct2, THEN conjunct2, THEN conjunct1]
    by (simp add: with_population_def init_engine_def)
  have d: "calculate_biodiversity_index (with_population 0 7 0) = Inr 0"
    using biodiversity_index_rounded_shannon[of "with_population 0 7 0",
        THEN conjunct2, THEN conjunct2, THEN conjunct2]
    by (simp add: with_population_def init_engine_def)
  from a b c d show ?thesis by (intro conjI)
qed

section \<open>Overriding the environment\<close>

lemma dict_get_Nil: "dict_get [] k d = d"
  by (simp add: dict_get_def)

lemma dict_get_Cons: "dict_get ((k', v) # kw) k d = (if k = k' then v else dict_get kw k d)"
  by (simp add: dict_get_def)

lemma dict_get_absent: "k \<notin> fst ` set kw \<Longrightarrow> dict_get kw k d = d"
  by (simp add: dict_get_def map_of_eq_None_iff[THEN iffD2])

lemma hasattr_env_field: "k \<in> set field_names \<Longrightarrow> hasattr_env cls ev k"
  by (simp add: hasattr_env_def)

lemma field_names_cases:
  "k \<in> set field_names \<Longrightarrow>
     k = ''temperature'' \<or> k = ''nutrients'' \<or> k = ''light'' \<or>
     k = ''salinity'' \<or> k = ''ph'' \<or> k = ''dissolved_oxygen''"
  by (simp add: field_names_def)

lemma not_field_name:
  "k \<notin> set field_names \<Longrightarrow>
     ''temperature'' \<noteq> k \<and> ''nutrients'' \<noteq> k \<and> ''light'' \<noteq> k \<and>
     ''salinity'' \<noteq> k \<and> ''ph'' \<noteq> k \<and> ''dissolved_oxygen'' \<noteq> k"
  by (simp add: field_names_def eq_commute)

lemma setattr_env_field:
  assumes "k \<in> set field_names"
  shows "setattr_env cls ev k v =
     Inr (ev\<lparr>temperature := (if k = ''temperature'' then v else temperature ev),
             nutrients := (if k = ''nutrients'' then v else nutrients ev),
             light := (if k = ''light'' then v else light ev),
             salinity := (if k = ''salinity'' then v else salinity ev),
             ph := (if k = ''ph'' then v else ph ev),
             dissolved_oxygen := (if k = ''dissolved_oxygen'' then v else dissolved_oxygen ev)\<rparr>)"
  using field_names_cases[OF assms]
  by (elim disjE) (simp_all add: setattr_env_def)

lemma update_loop_fields:
  assumes "distinct (map fst kwargs)"
    and "\<forall>k\<in>set (map fst kwargs). k \<notin> set field_names \<longrightarrow> \<not> hasattr_env cls ev k"
  shows "update_loop cls ev kwargs =
           Inr (ev\<lparr>temperature := dict_get kwargs ''temperature'' (temperature ev),
                   nutrients := dict_get kwargs ''nutrients'' (nutrients ev),
                   light := dict_get kwargs ''light'' (light ev),
                   salinity := dict_get kwargs ''salinity'' (salinity ev),
                   ph := dict_get kwargs ''ph'' (ph ev),
                   dissolved_oxygen := dict_get kwargs ''dissolved_oxygen'' (dissolved_oxygen ev)\<rparr>)"
  using assms
proof (induction kwargs arbitrary: ev)
  case Nil
  then show ?case by (simp add: dict_get_Nil)
next
  case (Cons kv kwargs)
  obtain k v where kv: "kv = (k, v)" by (cases kv)
  from Cons.prems(1) have dist: "distinct (map fst kwargs)" and fresh: "k \<notin> fst ` set kwargs"
    by (simp_all add: kv)
  have absent: "\<And>d. dict_get kwargs k d = d"
    using fresh by (rule dict_get_absent)
  show ?case
  proof (cases "k \<in> set field_names")
    case True
    let ?ev1 = "ev\<lparr>temperature := (if k = ''temperature'' then v else temperature ev),
             nutrients := (if k = ''nutrients'' then v else nutrients ev),
             light := (if k = ''light'' then v else light ev),
             salinity := (if k = ''salinity'' then v else salinity ev),
             ph := (if k = ''ph'' then v else ph ev),
             dissolved_oxygen := (if k = ''dissolved_oxygen'' then v else dissolved_oxygen ev)\<rparr>"
    have same: "\<And>x. hasattr_env cls ?ev1 x = hasattr_env cls ev x"
      by (simp add: hasattr_env_def)
    have pre: "\<forall>x\<in>set (map fst kwargs). x \<notin> set field_names \<longrightarrow> \<not> hasattr_env cls ?ev1 x"
      using Cons.prems(2) by (simp add: same kv)
    have loop: "update_loop cls ev ((k, v) # kwargs) = update_loop cls ?ev1 kwargs"
      by (simp add: hasattr_env_field[OF True] setattr_env_field[OF True])
    from field_names_cases[OF True] show ?thesis
    proof (elim disjE)
      assume k: "k = ''temperature''"
      with absent have "\<And>d. dict_get kwargs ''temperature'' d = d" by simp
      then show ?thesis
        unfolding kv loop Cons.IH[OF dist pre] dict_get_Cons by (simp add: k)
    next
      assume k: "k = ''nutrients''"
      with absent have "\<And>d. dict_get kwargs ''nutrients'' d = d" by simp
      then show ?thesis
        unfolding kv loop Cons.IH[OF dist pre] dict_get_Cons by (simp add: k)
    next
      assume k: "k = ''light''"
      with absent have "\<And>d. dict_get kwargs ''light'' d = d" by simp
      then show ?thesis
        unfolding kv loop Cons.IH[OF dist pre] dict_get_Cons by (simp add: k)
    next
      assume k: "k = ''salinity''"
      with absent have "\<And>d. dict_get kwargs ''salinity'' d = d" by simp
      then show ?thesis
        unfolding kv loop Cons.IH[OF dist pre] dict_get_Cons by (simp add: k)
    next
      assume k: "k = ''ph''"
      with absent have "\<And>d. dict_get kwargs ''ph'' d = d" by simp
      then show ?thesis
        unfolding kv loop Cons.IH[OF dist pre] dict_get_Cons by (simp add: k)
    next
      assume k: "k = ''dissolved_oxygen''"
      with absent have "\<And>d. dict_get kwargs ''dissolved_oxygen'' d = d" by simp
      then show ?thesis
        unfolding kv loop Cons.IH[OF dist pre] dict_get_Cons by (simp add: k)
    qed
  next
    case False
    with Cons.prems(2) have no: "\<not> hasattr_env cls ev k"
      by (simp add: kv)
    have pre: "\<forall>x\<in>set (map fst kwargs). x \<notin> set field_names \<longrightarrow> \<not> hasattr_env cls ev x"
      using Cons.prems(2) by simp
    have loop: "update_loop cls ev ((k, v) # kwargs) = update_loop cls ev kwargs"
      by (simp add: no)
    show ?thesis
      unfolding kv loop Cons.IH[OF dist pre] dict_get_Cons
      by (simp add: not_field_name[OF False])
  qed
qed

text \<open>
  Claim C10, amended. For every keyword mapping in which each key is either one of the
  six fields or not an attribute of the environment object at all, \<open>update_environment\<close>
  raises nothing, sets each named field to the value given, leaves every other field as
  it was, and changes nothing else of the engine: the keys that are not attributes are
  ignored.
\<close>

theorem update_environment_sets_named_fields:
  assumes "distinct (map fst kwargs)"
    and "\<forall>k\<in>set (map fst kwargs). k \<notin> set field_names \<longrightarrow> \<not> hasattr_env cls (env e) k"
  shows "update_environment cls e kwargs =
           Inr (e\<lparr>env := (env e)
                  \<lparr>temperature := dict_get kwargs ''temperature'' (temperature (env e)),
                   nutrients := dict_get kwargs ''nutrients'' (nutrients (env e)),
                   light := dict_get kwargs ''light'' (light (env e)),
                   salinity := dict_get kwargs ''salinity'' (salinity (env e)),
                   ph := dict_get kwargs ''ph'' (ph (env e)),
                   dissolved_oxygen :=
                     dict_get kwargs ''dissolved_oxygen'' (dissolved_oxygen (env e))\<rparr>\<rparr>)"
  by (simp only: update_environment_def update_loop_fields[OF assms] sum.case)

theorem update_environment_sets_named_fields_witness:
  "update_environment EnvironmentalState_class default_engine
     [(''temperature'', 25), (''turbidity'', 3), (''ph'', 7.9)] =
   Inr (default_engine\<lparr>env := (env default_engine)\<lparr>temperature := 25, ph := 7.9\<rparr>\<rparr>)"
proof -
  let ?kw = "[(''temperature'', 25), (''turbidity'', 3), (''ph'', 7.9 :: real)]"
  have d: "distinct (map fst ?kw)" by simp
  have h: "\<forall>k\<in>set (map fst ?kw). k \<notin> set field_names \<longrightarrow>
             \<not> hasattr_env EnvironmentalState_class (env default_engine) k"
    by (simp add: field_names_def hasattr_env_def EnvironmentalState_class_def default_engine_env)
  show ?thesis
    using update_environment_sets_named_fields[OF d h]
    by (simp add: dict_get_def default_engine_env)
qed

text \<open>
  Claim C10 says that every key that is not a field is ignored, with no error and no
  change of state. The guard is \<^verbatim>\<open>hasattr\<close>, which also holds for the names the
  class provides. The key \<^verbatim>\<open>__doc__\<close> is no field, yet the call stores it as a
  new instance attribute, after which \<open>predict_future\<close> fails in its copy of the
  environment; the key \<^verbatim>\<open>__class__\<close> is no field, and the call raises TypeError.
\<close>

theorem update_environment_dunder_keys:
  "''__doc__'' \<notin> set field_names \<and>
   update_environment EnvironmentalState_class default_engine [(''__doc__'', 1)] =
     Inr (default_engine\<lparr>env := (env default_engine)\<lparr>inst_attrs := [(''__doc__'', 1)]\<rparr>\<rparr>) \<and>
   predict_future
     (default_engine\<lparr>env := (env default_engine)\<lparr>inst_attrs := [(''__doc__'', 1)]\<rparr>\<rparr>) 1 =
     Inl TypeError \<and>
   ''__class__'' \<notin> set field_names \<and>
   update_environment EnvironmentalState_class default_engine [(''__class__'', 1)] =
     Inl TypeError"
  by (simp add: field_names_def update_environment_def hasattr_env_def setattr_env_def
      EnvironmentalState_class_def default_engine_env predict_future_def)

end
